theory Spec2Isabelle
  imports Main "HOL-Library.Word" "HOL-Library.Signed_Division"
begin

unbundle bit_operations_syntax

section \<open>Machine integers of telemetry.c\<close>

text \<open>
  \<open>uint32_t\<close>, \<open>uint64_t\<close> and \<open>uint8_t\<close> are words of that width. \<open>int64_t\<close> and
  \<open>int32_t\<close> are words of the same width read through \<open>sint\<close>: addition and
  subtraction are the two's complement ones of the target, comparison is the signed
  one (\<open><s\<close>), and division truncates toward zero as C's \<open>/\<close> does.
\<close>

type_synonym uint8_t = "8 word"
type_synonym uint32_t = "32 word"
type_synonym int32_t = "32 word"
type_synonym uint64_t = "64 word"
type_synonym int64_t = "64 word"

definition sdiv64 :: "int64_t \<Rightarrow> int64_t \<Rightarrow> int64_t" where
  "sdiv64 a b = word_of_int (sint a sdiv sint b)"

section \<open>The 32 to 64 bit clock extender\<close>

text \<open>
  The two function-local statics of \<open>tx_raw_now_ms\<close>. Both start at 0.
\<close>

record clock =
  last_ticks32 :: uint32_t
  high :: uint64_t

definition clock_init :: clock where
  "clock_init = \<lparr>last_ticks32 = 0, high = 0\<rparr>"

text \<open>
  The body of \<open>tx_raw_now_ms\<close> once \<open>tx_time_get()\<close> has returned \<open>cur32\<close>.
  \<open>tps\<close> is \<open>TX_TIMER_TICKS_PER_SECOND\<close>, a constant of ThreadX that the
  translation unit only requires to be defined.
\<close>

definition tx_raw_now_ms_at :: "uint64_t \<Rightarrow> uint32_t \<Rightarrow> clock \<Rightarrow> uint64_t \<times> clock" where
  "tx_raw_now_ms_at tps cur32 c =
     (let high' = (if cur32 < last_ticks32 c then high c + push_bit 32 1 else high c);
          ticks64 = high' OR ucast cur32
      in ((ticks64 * 1000) div tps, \<lparr>last_ticks32 = cur32, high = high'\<rparr>))"

text \<open>Successive calls of \<open>tx_raw_now_ms\<close>, one per hardware reading, and what they return.\<close>

fun raw_now_ms_seq :: "uint64_t \<Rightarrow> clock \<Rightarrow> uint32_t list \<Rightarrow> uint64_t list" where
  "raw_now_ms_seq tps c [] = []"
| "raw_now_ms_seq tps c (t # ts) =
     fst (tx_raw_now_ms_at tps t c) # raw_now_ms_seq tps (snd (tx_raw_now_ms_at tps t c)) ts"

fun clock_after :: "uint64_t \<Rightarrow> clock \<Rightarrow> uint32_t list \<Rightarrow> clock" where
  "clock_after tps c [] = c"
| "clock_after tps c (t # ts) = clock_after tps (snd (tx_raw_now_ms_at tps t c)) ts"

text \<open>The number of readings that are smaller than the reading before them.\<close>

fun wrap_count :: "uint32_t \<Rightarrow> uint32_t list \<Rightarrow> nat" where
  "wrap_count l [] = 0"
| "wrap_count l (t # ts) = (if t < l then 1 else 0) + wrap_count t ts"

text \<open>
  \<open>n\<close> laps of the hardware counter, read once at its maximum and once just after
  the wrap.
\<close>

definition wrap_cycles :: "nat \<Rightarrow> uint32_t list" where
  "wrap_cycles n = concat (replicate n [4294967295, 0])"

section \<open>NTP arithmetic\<close>

text \<open>
  \<open>compute_offset_delay\<close> writes through two out-pointers; the model returns the pair
  \<open>(*offset_ms, *delay_ms)\<close>.
\<close>

definition compute_offset_delay ::
  "uint64_t \<Rightarrow> uint64_t \<Rightarrow> uint64_t \<Rightarrow> uint64_t \<Rightarrow> int64_t \<times> uint64_t" where
  "compute_offset_delay t1 t2 t3 t4 =
     (let o_ms = sdiv64 ((t2 - t1) + (t3 - t4)) 2;
          d_ms = (t4 - t1) - (t3 - t2)
      in (o_ms, if d_ms <s 0 then 0 else d_ms))"

text \<open>
  The estimator in the words of the design: the differences and their sum in signed
  64-bit arithmetic, the quotient truncated toward zero, a negative delay clamped.
\<close>

definition wrap_s64 :: "int \<Rightarrow> int" where
  "wrap_s64 k = signed_take_bit 63 k"

definition quot_toward_zero :: "int \<Rightarrow> int \<Rightarrow> int" where
  "quot_toward_zero a b = (if (a < 0) = (b < 0) then \<bar>a\<bar> div \<bar>b\<bar> else - (\<bar>a\<bar> div \<bar>b\<bar>))"

definition estimate_offset :: "int \<Rightarrow> int \<Rightarrow> int \<Rightarrow> int \<Rightarrow> int" where
  "estimate_offset t1 t2 t3 t4 =
     quot_toward_zero (wrap_s64 (wrap_s64 (t2 - t1) + wrap_s64 (t3 - t4))) 2"

definition estimate_delay :: "int \<Rightarrow> int \<Rightarrow> int \<Rightarrow> int \<Rightarrow> int" where
  "estimate_delay t1 t2 t3 t4 =
     (let d = wrap_s64 (wrap_s64 (t4 - t1) - wrap_s64 (t3 - t2)) in if d < 0 then 0 else d)"

section \<open>Applying an offset\<close>

definition NET_TIMESYNC_MAX_STEP_MS :: int64_t where
  "NET_TIMESYNC_MAX_STEP_MS = 30000"

definition NET_TIMESYNC_SMOOTH_DIV :: int64_t where
  "NET_TIMESYNC_SMOOTH_DIV = 4"

text \<open>
  \<open>client_apply_offset_ms\<close> reads and writes the global \<open>g_master_offset_ms\<close> only;
  the model takes its value and returns the new one.
\<close>

definition client_apply_offset_ms :: "int64_t \<Rightarrow> int64_t \<Rightarrow> int64_t" where
  "client_apply_offset_ms offset_ms g_master_offset_ms =
     (if NET_TIMESYNC_MAX_STEP_MS <s offset_ms \<or> offset_ms <s - NET_TIMESYNC_MAX_STEP_MS
      then g_master_offset_ms
      else
        let step = sdiv64 offset_ms NET_TIMESYNC_SMOOTH_DIV;
            step = (if step = 0
                    then (if 0 <s offset_ms then 1
                          else if offset_ms <s 0 then - 1 else step)
                    else step)
        in g_master_offset_ms + step)"

text \<open>
  The step in the words of the design: the candidate divided by the smoothing divisor,
  truncated toward zero, and a unit step in the candidate's sign when that is zero.
\<close>

definition smooth_step :: "int \<Rightarrow> int" where
  "smooth_step c = (if quot_toward_zero c 4 = 0 then sgn c else quot_toward_zero c 4)"

text \<open>\<open>n\<close> calls of \<open>client_apply_offset_ms\<close> with the same candidate.\<close>

primrec apply_offset_times :: "nat \<Rightarrow> int64_t \<Rightarrow> int64_t \<Rightarrow> int64_t" where
  "apply_offset_times 0 offset_ms g = g"
| "apply_offset_times (Suc n) offset_ms g =
     client_apply_offset_ms offset_ms (apply_offset_times n offset_ms g)"

section \<open>Collaborators\<close>

text \<open>
  Modelled from the spec: \<open>sedsprintf.h\<close> is not among the sources. \<open>SedsResult\<close> is
  the result code of the router library; the design names the bad-argument, IO and
  general failure codes, and the code uses \<open>SEDS_OK\<close>, \<open>SEDS_ERR\<close>, \<open>SEDS_BAD_ARG\<close> and
  \<open>SEDS_IO\<close>. Every other code the router may return is \<open>SEDS_OTHER\<close>.
\<close>

datatype SedsResult = SEDS_OK | SEDS_ERR | SEDS_BAD_ARG | SEDS_IO | SEDS_OTHER int

text \<open>
  Modelled from the spec: the message type tags of \<open>sedsprintf.h\<close>. The three time-sync
  tags and the two tags used for logging are distinct values of one enumeration; every
  other tag is \<open>SEDS_DT_OTHER\<close>.
\<close>

datatype SedsDataType =
    SEDS_DT_TIME_SYNC_REQUEST
  | SEDS_DT_TIME_SYNC_RESPONSE
  | SEDS_DT_TIME_SYNC_ANNOUNCE
  | SEDS_DT_GENERIC_ERROR
  | SEDS_DT_MESSAGE_DATA
  | SEDS_DT_OTHER nat

datatype SedsElemKind = SEDS_EK_FLOAT | SEDS_EK_UNSIGNED

text \<open>
  Modelled from the spec: the fields of \<open>SedsPacketView\<close> that \<open>on_timesync\<close> reads. The
  payload pointer is \<open>None\<close> when it is null, otherwise the bytes it points to.
\<close>

record SedsPacketView =
  ty :: SedsDataType
  payload :: "uint8_t list option"
  payload_len :: nat

text \<open>
  The build-time switches \<open>TELEMETRY_ENABLED\<close> and \<open>TELEMETRY_TIME_MASTER\<close> and the
  ThreadX constant, as one configuration value.
\<close>

record config =
  TELEMETRY_ENABLED :: bool
  TELEMETRY_TIME_MASTER :: bool
  TX_TIMER_TICKS_PER_SECOND :: uint64_t

text \<open>
  Every call that leaves the translation unit is recorded, in order. A router handle
  is \<open>None\<close> when the pointer is null. \<open>PRINTF\<close> keeps the format without its line
  ending and the arguments.
\<close>

datatype ext_call =
    TX_TIME_GET
  | PRINTF string "int list"
  | CAN_BUS_SUBSCRIBE_RX
  | CAN_BUS_SEND_LARGE "uint8_t list" nat
  | SEDS_ROUTER_NEW
  | SEDS_ROUTER_ADD_SIDE_SERIALIZED
  | SEDS_ROUTER_LOG_TS "nat option" SedsDataType uint64_t "uint64_t list"
  | SEDS_ROUTER_LOG_TYPED_EX "nat option" SedsDataType nat nat SedsElemKind bool
  | SEDS_ROUTER_LOG_STRING_EX "nat option" SedsDataType string nat bool
  | SEDS_ROUTER_RX_TO_QUEUE "nat option" "int32_t option" "uint8_t list" nat
  | SEDS_ROUTER_RECEIVE_SERIALIZED "nat option" "int32_t option" "uint8_t list" nat
  | SEDS_ROUTER_PROCESS_TX_QUEUE "nat option" "uint32_t option"
  | SEDS_ROUTER_PROCESS_RX_QUEUE "nat option" "uint32_t option"
  | SEDS_ROUTER_PROCESS_ALL_QUEUES "nat option" uint32_t

text \<open>
  Modelled from the spec: what the collaborators answer. The router, the bus driver and
  ThreadX are opaque; the answer to a call is a function of the number of calls made
  before it. \<open>seds_router_delivers\<close> lists the packets that the router hands to the
  time-sync endpoint while it processes its queues or receives serialized bytes; a
  call that only enqueues hands over none.
\<close>

record env =
  tx_time_get :: "nat \<Rightarrow> uint32_t"
  can_bus_subscribe_rx :: "nat \<Rightarrow> bool"
  can_bus_send_large :: "nat \<Rightarrow> bool"
  seds_router_new :: "nat \<Rightarrow> nat option"
  seds_router_add_side_serialized :: "nat \<Rightarrow> int32_t"
  seds_router_result :: "nat \<Rightarrow> SedsResult"
  seds_router_delivers :: "nat \<Rightarrow> SedsPacketView option list"

section \<open>The globals of telemetry.c\<close>

record RouterState =
  r :: "nat option"
  created :: uint8_t
  start_time :: uint64_t

record state =
  clk :: clock
  g_master_offset_ms :: int64_t
  g_last_delay_ms :: uint64_t
  g_unix_base_ms :: int64_t
  g_unix_valid :: uint8_t
  g_router :: RouterState
  g_can_rx_subscribed :: uint8_t
  g_can_side_id :: int32_t
  g_timesync_seq :: uint64_t
  trace :: "ext_call list"

definition state_init :: state where
  "state_init =
     \<lparr>clk = clock_init, g_master_offset_ms = 0, g_last_delay_ms = 0, g_unix_base_ms = 0,
      g_unix_valid = 0, g_router = \<lparr>r = None, created = 0, start_time = 0\<rparr>,
      g_can_rx_subscribed = 0, g_can_side_id = - 1, g_timesync_seq = 1, trace = []\<rparr>"

definition record_call :: "ext_call \<Rightarrow> state \<Rightarrow> state" where
  "record_call e s = s\<lparr>trace := trace s @ [e]\<rparr>"

section \<open>Clock and time helpers on the globals\<close>

definition tx_raw_now_ms :: "config \<Rightarrow> env \<Rightarrow> state \<Rightarrow> uint64_t \<times> state" where
  "tx_raw_now_ms C E s =
     (let cur32 = tx_time_get E (length (trace s));
          s1 = record_call TX_TIME_GET s;
          (ms, c) = tx_raw_now_ms_at (TX_TIMER_TICKS_PER_SECOND C) cur32 (clk s1)
      in (ms, s1\<lparr>clk := c\<rparr>))"

definition telemetry_now_ms :: "config \<Rightarrow> env \<Rightarrow> state \<Rightarrow> uint64_t \<times> state" where
  "telemetry_now_ms C E s =
     (let (raw, s1) = tx_raw_now_ms C E s;
          t = raw + g_master_offset_ms s1
      in (if t <s 0 then 0 else t, s1))"

definition telemetry_unix_ms :: "config \<Rightarrow> env \<Rightarrow> state \<Rightarrow> uint64_t \<times> state" where
  "telemetry_unix_ms C E s =
     (if g_unix_valid s = 0 then (0, s)
      else
        let (now, s1) = telemetry_now_ms C E s;
            t = now + g_unix_base_ms s1
        in (if t <s 0 then 0 else t, s1))"

definition telemetry_unix_s :: "config \<Rightarrow> env \<Rightarrow> state \<Rightarrow> uint64_t \<times> state" where
  "telemetry_unix_s C E s =
     (let (ms, s1) = telemetry_unix_ms C E s in (ms div 1000, s1))"

definition telemetry_unix_is_valid :: "state \<Rightarrow> uint8_t" where
  "telemetry_unix_is_valid s = g_unix_valid s"

definition telemetry_set_unix_time_ms :: "config \<Rightarrow> env \<Rightarrow> uint64_t \<Rightarrow> state \<Rightarrow> state" where
  "telemetry_set_unix_time_ms C E unix_ms s =
     (if TELEMETRY_TIME_MASTER C
      then
        let (now, s1) = telemetry_now_ms C E s
        in s1\<lparr>g_unix_base_ms := unix_ms - now, g_unix_valid := 1\<rparr>
      else s)"

definition node_now_since_ms :: "config \<Rightarrow> env \<Rightarrow> state \<Rightarrow> uint64_t \<times> state" where
  "node_now_since_ms C E s =
     (let (now, s1) = telemetry_now_ms C E s
      in (if r (g_router s1) \<noteq> None then now - start_time (g_router s1) else 0, s1))"

section \<open>Transport and endpoint handlers\<close>

definition tx_send :: "env \<Rightarrow> uint8_t list option \<Rightarrow> nat \<Rightarrow> state \<Rightarrow> SedsResult \<times> state" where
  "tx_send E bytes len s =
     (case bytes of
        None \<Rightarrow> (SEDS_BAD_ARG, s)
      | Some bs \<Rightarrow>
          if len = 0 then (SEDS_BAD_ARG, s)
          else (if can_bus_send_large E (length (trace s)) then SEDS_OK else SEDS_IO,
                record_call (CAN_BUS_SEND_LARGE bs len) s))"

definition on_sd_packet :: "SedsPacketView option \<Rightarrow> state \<Rightarrow> SedsResult \<times> state" where
  "on_sd_packet pkt s = (SEDS_OK, s)"

text \<open>
  \<open>memcpy\<close> of eight payload bytes into a \<open>uint64_t\<close> on the little-endian target: the
  byte at the lowest address is the least significant.
\<close>

definition load_u64 :: "uint8_t list \<Rightarrow> nat \<Rightarrow> uint64_t" where
  "load_u64 bs off = foldr (\<lambda>b acc. ucast b OR push_bit 8 acc) (take 8 (drop off bs)) 0"

definition seds_router_log_ts ::
  "env \<Rightarrow> nat option \<Rightarrow> SedsDataType \<Rightarrow> uint64_t \<Rightarrow> uint64_t list \<Rightarrow> state
     \<Rightarrow> SedsResult \<times> state" where
  "seds_router_log_ts E rp dt ts data s =
     (seds_router_result E (length (trace s)), record_call (SEDS_ROUTER_LOG_TS rp dt ts data) s)"

definition on_timesync :: "config \<Rightarrow> env \<Rightarrow> SedsPacketView option \<Rightarrow> state \<Rightarrow> SedsResult \<times> state" where
  "on_timesync C E pkt s =
     (case pkt of
        None \<Rightarrow> (SEDS_ERR, s)
      | Some p \<Rightarrow>
         (case payload p of
            None \<Rightarrow> (SEDS_ERR, s)
          | Some bs \<Rightarrow>
              if ty p = SEDS_DT_TIME_SYNC_RESPONSE \<and> 32 \<le> payload_len p then
                let seq = load_u64 bs 0; t1 = load_u64 bs 8;
                    t2 = load_u64 bs 16; t3 = load_u64 bs 24;
                    (t4, s1) = tx_raw_now_ms C E s;
                    (offset_ms, delay_ms) = compute_offset_delay t1 t2 t3 t4;
                    s2 = (if \<not> TELEMETRY_TIME_MASTER C
                          then s1\<lparr>g_master_offset_ms :=
                                   client_apply_offset_ms offset_ms (g_master_offset_ms s1)\<rparr>
                          else s1)
                in (SEDS_OK, s2\<lparr>g_last_delay_ms := delay_ms\<rparr>)
              else if ty p = SEDS_DT_TIME_SYNC_REQUEST \<and> 16 \<le> payload_len p then
                if TELEMETRY_TIME_MASTER C then
                  let seq = load_u64 bs 0; t1 = load_u64 bs 8;
                      (t2, s1) = tx_raw_now_ms C E s;
                      (t3, s2) = tx_raw_now_ms C E s1
                  in seds_router_log_ts E (r (g_router s2)) SEDS_DT_TIME_SYNC_RESPONSE t3
                       [seq, t1, t2, t3] s2
                else (SEDS_OK, s)
              else if ty p = SEDS_DT_TIME_SYNC_ANNOUNCE \<and> 16 \<le> payload_len p then
                if \<not> TELEMETRY_TIME_MASTER C then
                  let priority = load_u64 bs 0; unix_ms = load_u64 bs 8;
                      half_delay = g_last_delay_ms s div 2;
                      (now, s1) = telemetry_now_ms C E s
                  in (SEDS_OK,
                      s1\<lparr>g_unix_base_ms := (unix_ms + half_delay) - now, g_unix_valid := 1\<rparr>)
                else (SEDS_OK, s)
              else (SEDS_OK, s)))"

text \<open>
  The packets that the router hands to the time-sync endpoint, one call of
  \<open>on_timesync\<close> each; the router keeps the handler's result to itself.
\<close>

fun deliver :: "config \<Rightarrow> env \<Rightarrow> SedsPacketView option list \<Rightarrow> state \<Rightarrow> state" where
  "deliver C E [] s = s"
| "deliver C E (p # ps) s = deliver C E ps (snd (on_timesync C E p s))"

text \<open>
  A router call that may run endpoint handlers before it returns.
\<close>

definition router_processing :: "config \<Rightarrow> env \<Rightarrow> ext_call \<Rightarrow> state \<Rightarrow> SedsResult \<times> state" where
  "router_processing C E e s =
     (let i = length (trace s)
      in (seds_router_result E i, deliver C E (seds_router_delivers E i) (record_call e s)))"

text \<open>A router call that only enqueues.\<close>

definition router_enqueue :: "env \<Rightarrow> ext_call \<Rightarrow> state \<Rightarrow> SedsResult \<times> state" where
  "router_enqueue E e s = (seds_router_result E (length (trace s)), record_call e s)"

section \<open>Router initialisation\<close>

text \<open>
  The first block of \<open>init_telemetry_router\<close>:
  \<open>if (!g_can_rx_subscribed) { if (can_bus_subscribe_rx(...) == HAL_OK) g_can_rx_subscribed = 1;
  else printf(...); }\<close>.
\<close>

definition subscribe_can_rx :: "env \<Rightarrow> state \<Rightarrow> state" where
  "subscribe_can_rx E s =
     (if g_can_rx_subscribed s = 0
      then
        if can_bus_subscribe_rx E (length (trace s))
        then (record_call CAN_BUS_SUBSCRIBE_RX s)\<lparr>g_can_rx_subscribed := 1\<rparr>
        else record_call (PRINTF ''Error: can_bus_subscribe_rx failed'' [])
               (record_call CAN_BUS_SUBSCRIBE_RX s)
      else s)"

text \<open>
  The block that attaches the CAN side:
  \<open>g_can_side_id = seds_router_add_side_serialized(...);
  if (g_can_side_id < 0) { printf(...); g_can_side_id = -1; }\<close>.
\<close>

definition add_can_side :: "env \<Rightarrow> state \<Rightarrow> state" where
  "add_can_side E s =
     (let side = seds_router_add_side_serialized E (length (trace s));
          s1 = (record_call SEDS_ROUTER_ADD_SIDE_SERIALIZED s)\<lparr>g_can_side_id := side\<rparr>
      in if side <s 0
         then (record_call (PRINTF ''Error: failed to add CAN side: %ld'' [sint side]) s1)
                \<lparr>g_can_side_id := - 1\<rparr>
         else s1)"

definition init_telemetry_router :: "config \<Rightarrow> env \<Rightarrow> state \<Rightarrow> SedsResult \<times> state" where
  "init_telemetry_router C E s =
     (if \<not> TELEMETRY_ENABLED C then (SEDS_OK, s)
      else if created (g_router s) \<noteq> 0 \<and> r (g_router s) \<noteq> None then (SEDS_OK, s)
      else
        let s1 = subscribe_can_rx E s;
            rnew = seds_router_new E (length (trace s1));
            s2 = record_call SEDS_ROUTER_NEW s1
        in case rnew of
             None \<Rightarrow>
               (SEDS_ERR,
                (record_call (PRINTF ''Error: failed to create router'' []) s2)
                  \<lparr>g_router := (g_router s2)\<lparr>r := None, created := 0\<rparr>,
                   g_can_side_id := - 1\<rparr>)
           | Some rp \<Rightarrow>
               let s4 = add_can_side E s2;
                   s5 = s4\<lparr>g_router := (g_router s4)\<lparr>r := Some rp, created := 1\<rparr>\<rparr>;
                   (now, s6) = telemetry_now_ms C E s5;
                   s7 = s6\<lparr>g_router := (g_router s6)\<lparr>start_time := now\<rparr>\<rparr>;
                   s8 = (if TELEMETRY_TIME_MASTER C then s7\<lparr>g_master_offset_ms := 0\<rparr> else s7)
               in (SEDS_OK, s8))"

text \<open>
  The lazy initialisation that opens every facade entry point:
  \<open>if (!g_router.r) { if (init_telemetry_router() != SEDS_OK) return ...; }\<close>.
  The result is \<open>False\<close> when the entry point has to return early.
\<close>

definition router_ready :: "config \<Rightarrow> env \<Rightarrow> state \<Rightarrow> bool \<times> state" where
  "router_ready C E s =
     (if r (g_router s) = None
      then (let (res, s1) = init_telemetry_router C E s in (res = SEDS_OK, s1))
      else (True, s))"

section \<open>Receiving from the bus\<close>

definition rx_asynchronous :: "config \<Rightarrow> env \<Rightarrow> uint8_t list option \<Rightarrow> nat \<Rightarrow> state \<Rightarrow> state" where
  "rx_asynchronous C E bytes len s =
     (if \<not> TELEMETRY_ENABLED C then s
      else case bytes of
        None \<Rightarrow> s
      | Some bs \<Rightarrow>
          if len = 0 then s
          else
            let (ready, s1) = router_ready C E s
            in if \<not> ready then s1
               else if 0 \<le>s g_can_side_id s1
               then snd (router_enqueue E
                      (SEDS_ROUTER_RX_TO_QUEUE (r (g_router s1)) (Some (g_can_side_id s1)) bs len) s1)
               else snd (router_enqueue E
                      (SEDS_ROUTER_RX_TO_QUEUE (r (g_router s1)) None bs len) s1))"

definition telemetry_can_rx :: "config \<Rightarrow> env \<Rightarrow> uint8_t list option \<Rightarrow> nat \<Rightarrow> state \<Rightarrow> state" where
  "telemetry_can_rx C E data len s = rx_asynchronous C E data len s"

definition rx_synchronous :: "config \<Rightarrow> env \<Rightarrow> uint8_t list option \<Rightarrow> nat \<Rightarrow> state \<Rightarrow> state" where
  "rx_synchronous C E bytes len s =
     (if \<not> TELEMETRY_ENABLED C then s
      else case bytes of
        None \<Rightarrow> s
      | Some bs \<Rightarrow>
          if len = 0 then s
          else
            let (ready, s1) = router_ready C E s
            in if \<not> ready then s1
               else if 0 \<le>s g_can_side_id s1
               then snd (router_processing C E
                      (SEDS_ROUTER_RECEIVE_SERIALIZED (r (g_router s1)) (Some (g_can_side_id s1)) bs len) s1)
               else snd (router_processing C E
                      (SEDS_ROUTER_RECEIVE_SERIALIZED (r (g_router s1)) None bs len) s1))"

section \<open>Time-sync request and announce\<close>

definition telemetry_timesync_request :: "config \<Rightarrow> env \<Rightarrow> state \<Rightarrow> SedsResult \<times> state" where
  "telemetry_timesync_request C E s =
     (if \<not> TELEMETRY_ENABLED C then (SEDS_OK, s)
      else if TELEMETRY_TIME_MASTER C then (SEDS_OK, s)
      else
        let (ready, s1) = router_ready C E s
        in if \<not> ready then (SEDS_ERR, s1)
           else
             let (t1, s2) = tx_raw_now_ms C E s1;
                 req = [g_timesync_seq s2, t1];
                 s3 = s2\<lparr>g_timesync_seq := g_timesync_seq s2 + 1\<rparr>
             in seds_router_log_ts E (r (g_router s3)) SEDS_DT_TIME_SYNC_REQUEST t1 req s3)"

definition telemetry_timesync_announce ::
  "config \<Rightarrow> env \<Rightarrow> uint64_t \<Rightarrow> uint64_t \<Rightarrow> state \<Rightarrow> SedsResult \<times> state" where
  "telemetry_timesync_announce C E priority unix_ms s =
     (if \<not> TELEMETRY_ENABLED C then (SEDS_OK, s)
      else if \<not> TELEMETRY_TIME_MASTER C then (SEDS_OK, s)
      else
        let (ready, s1) = router_ready C E s
        in if \<not> ready then (SEDS_ERR, s1)
           else
             let (t, s2) = tx_raw_now_ms C E s1;
                 announce = [priority, unix_ms]
             in seds_router_log_ts E (r (g_router s2)) SEDS_DT_TIME_SYNC_ANNOUNCE t announce s2)"

section \<open>Logging\<close>

definition guess_kind_from_elem_size :: "nat \<Rightarrow> SedsElemKind" where
  "guess_kind_from_elem_size elem_size =
     (if elem_size = 4 \<or> elem_size = 8 then SEDS_EK_FLOAT else SEDS_EK_UNSIGNED)"

text \<open>
  \<open>data\<close> is \<open>None\<close> for a null pointer. With telemetry disabled the functions only call
  the empty \<open>print_data_no_telem\<close>.
\<close>

definition log_telemetry_synchronous ::
  "config \<Rightarrow> env \<Rightarrow> SedsDataType \<Rightarrow> uint8_t list option \<Rightarrow> nat \<Rightarrow> nat \<Rightarrow> state
     \<Rightarrow> SedsResult \<times> state" where
  "log_telemetry_synchronous C E data_type data element_count element_size s =
     (if TELEMETRY_ENABLED C then
        let (ready, s1) = router_ready C E s
        in if \<not> ready then (SEDS_ERR, s1)
           else if data = None \<or> element_count = 0 \<or> element_size = 0 then (SEDS_BAD_ARG, s1)
           else
             let kind = guess_kind_from_elem_size element_size
             in router_processing C E
                  (SEDS_ROUTER_LOG_TYPED_EX (r (g_router s1)) data_type element_count
                     element_size kind False) s1
      else (SEDS_OK, s))"

definition log_telemetry_asynchronous ::
  "config \<Rightarrow> env \<Rightarrow> SedsDataType \<Rightarrow> uint8_t list option \<Rightarrow> nat \<Rightarrow> nat \<Rightarrow> state
     \<Rightarrow> SedsResult \<times> state" where
  "log_telemetry_asynchronous C E data_type data element_count element_size s =
     (if TELEMETRY_ENABLED C then
        let (ready, s1) = router_ready C E s
        in if \<not> ready then (SEDS_ERR, s1)
           else if data = None \<or> element_count = 0 \<or> element_size = 0 then (SEDS_BAD_ARG, s1)
           else
             let kind = guess_kind_from_elem_size element_size
             in router_enqueue E
                  (SEDS_ROUTER_LOG_TYPED_EX (r (g_router s1)) data_type element_count
                     element_size kind True) s1
      else (SEDS_OK, s))"

section \<open>Queue processing\<close>

definition dispatch_tx_queue :: "config \<Rightarrow> env \<Rightarrow> state \<Rightarrow> SedsResult \<times> state" where
  "dispatch_tx_queue C E s =
     (if \<not> TELEMETRY_ENABLED C then (SEDS_OK, s)
      else
        let (ready, s1) = router_ready C E s
        in if \<not> ready then (SEDS_ERR, s1)
           else router_processing C E (SEDS_ROUTER_PROCESS_TX_QUEUE (r (g_router s1)) None) s1)"

definition process_rx_queue :: "config \<Rightarrow> env \<Rightarrow> state \<Rightarrow> SedsResult \<times> state" where
  "process_rx_queue C E s =
     (if \<not> TELEMETRY_ENABLED C then (SEDS_OK, s)
      else
        let (ready, s1) = router_ready C E s
        in if \<not> ready then (SEDS_ERR, s1)
           else router_processing C E (SEDS_ROUTER_PROCESS_RX_QUEUE (r (g_router s1)) None) s1)"

definition dispatch_tx_queue_timeout :: "config \<Rightarrow> env \<Rightarrow> uint32_t \<Rightarrow> state \<Rightarrow> SedsResult \<times> state" where
  "dispatch_tx_queue_timeout C E timeout_ms s =
     (if \<not> TELEMETRY_ENABLED C then (SEDS_OK, s)
      else
        let (ready, s1) = router_ready C E s
        in if \<not> ready then (SEDS_ERR, s1)
           else router_processing C E
                  (SEDS_ROUTER_PROCESS_TX_QUEUE (r (g_router s1)) (Some timeout_ms)) s1)"

definition process_rx_queue_timeout :: "config \<Rightarrow> env \<Rightarrow> uint32_t \<Rightarrow> state \<Rightarrow> SedsResult \<times> state" where
  "process_rx_queue_timeout C E timeout_ms s =
     (if \<not> TELEMETRY_ENABLED C then (SEDS_OK, s)
      else
        let (ready, s1) = router_ready C E s
        in if \<not> ready then (SEDS_ERR, s1)
           else router_processing C E
                  (SEDS_ROUTER_PROCESS_RX_QUEUE (r (g_router s1)) (Some timeout_ms)) s1)"

definition process_all_queues_timeout :: "config \<Rightarrow> env \<Rightarrow> uint32_t \<Rightarrow> state \<Rightarrow> SedsResult \<times> state" where
  "process_all_queues_timeout C E timeout_ms s =
     (if \<not> TELEMETRY_ENABLED C then (SEDS_OK, s)
      else
        let (ready, s1) = router_ready C E s
        in if \<not> ready then (SEDS_ERR, s1)
           else router_processing C E
                  (SEDS_ROUTER_PROCESS_ALL_QUEUES (r (g_router s1)) timeout_ms) s1)"

section \<open>Error logging\<close>

text \<open>
  \<open>len\<close> and \<open>written\<close> are what the two calls of \<open>vsnprintf\<close> return and \<open>text\<close> is the
  formatted message; the buffer holds at most 512 characters of it.
\<close>

definition log_error_asyncronous ::
  "config \<Rightarrow> env \<Rightarrow> int \<Rightarrow> int \<Rightarrow> string \<Rightarrow> state \<Rightarrow> SedsResult \<times> state" where
  "log_error_asyncronous C E len written text s =
     (if \<not> TELEMETRY_ENABLED C then (SEDS_OK, s)
      else
        let (ready, s1) = router_ready C E s
        in if \<not> ready then (SEDS_ERR, s1)
           else if len < 0 then
             router_enqueue E
               (SEDS_ROUTER_LOG_STRING_EX (r (g_router s1)) SEDS_DT_GENERIC_ERROR [] 0 True) s1
           else
             let len = (if 512 < len then 512 else len);
                 buf = take (nat len) text
             in if written < 0 then
                  router_enqueue E
                    (SEDS_ROUTER_LOG_STRING_EX (r (g_router s1)) SEDS_DT_GENERIC_ERROR [] 0 True) s1
                else
                  router_enqueue E
                    (SEDS_ROUTER_LOG_STRING_EX (r (g_router s1)) SEDS_DT_GENERIC_ERROR buf
                       (nat written) True) s1)"

definition log_error_syncronous ::
  "config \<Rightarrow> env \<Rightarrow> int \<Rightarrow> int \<Rightarrow> string \<Rightarrow> state \<Rightarrow> SedsResult \<times> state" where
  "log_error_syncronous C E len written text s =
     (if \<not> TELEMETRY_ENABLED C then (SEDS_OK, s)
      else
        let (ready, s1) = router_ready C E s
        in if \<not> ready then (SEDS_ERR, s1)
           else if len < 0 then
             router_processing C E
               (SEDS_ROUTER_LOG_STRING_EX (r (g_router s1)) SEDS_DT_GENERIC_ERROR [] 0 False) s1
           else
             let len = (if 512 < len then 512 else len);
                 buf = take (nat len) text
             in if written < 0 then
                  router_processing C E
                    (SEDS_ROUTER_LOG_STRING_EX (r (g_router s1)) SEDS_DT_GENERIC_ERROR [] 0 False) s1
                else
                  router_processing C E
                    (SEDS_ROUTER_LOG_STRING_EX (r (g_router s1)) SEDS_DT_GENERIC_ERROR buf
                       (nat written) False) s1)"

section \<open>The operations of the core\<close>

text \<open>
  The entry points of \<open>telemetry.c\<close> that read or write its globals, with their
  arguments. \<open>print_telemetry_error\<close> and \<open>die\<close> are left out: the first only prints
  or calls \<open>log_error_asyncronous\<close>, the second never returns.
\<close>

datatype operation =
    Telemetry_now_ms
  | Telemetry_unix_ms
  | Telemetry_unix_s
  | Telemetry_unix_is_valid
  | Telemetry_set_unix_time_ms uint64_t
  | Node_now_since_ms
  | Tx_send "uint8_t list option" nat
  | On_sd_packet "SedsPacketView option"
  | On_timesync "SedsPacketView option"
  | Telemetry_can_rx "uint8_t list option" nat
  | Rx_asynchronous "uint8_t list option" nat
  | Rx_synchronous "uint8_t list option" nat
  | Telemetry_timesync_request
  | Telemetry_timesync_announce uint64_t uint64_t
  | Init_telemetry_router
  | Log_telemetry_synchronous SedsDataType "uint8_t list option" nat nat
  | Log_telemetry_asynchronous SedsDataType "uint8_t list option" nat nat
  | Dispatch_tx_queue
  | Process_rx_queue
  | Dispatch_tx_queue_timeout uint32_t
  | Process_rx_queue_timeout uint32_t
  | Process_all_queues_timeout uint32_t
  | Log_error_asyncronous int int string
  | Log_error_syncronous int int string

fun perform :: "config \<Rightarrow> env \<Rightarrow> operation \<Rightarrow> state \<Rightarrow> state" where
  "perform C E Telemetry_now_ms s = snd (telemetry_now_ms C E s)"
| "perform C E Telemetry_unix_ms s = snd (telemetry_unix_ms C E s)"
| "perform C E Telemetry_unix_s s = snd (telemetry_unix_s C E s)"
| "perform C E Telemetry_unix_is_valid s = s"
| "perform C E (Telemetry_set_unix_time_ms u) s = telemetry_set_unix_time_ms C E u s"
| "perform C E Node_now_since_ms s = snd (node_now_since_ms C E s)"
| "perform C E (Tx_send b n) s = snd (tx_send E b n s)"
| "perform C E (On_sd_packet p) s = snd (on_sd_packet p s)"
| "perform C E (On_timesync p) s = snd (on_timesync C E p s)"
| "perform C E (Telemetry_can_rx b n) s = telemetry_can_rx C E b n s"
| "perform C E (Rx_asynchronous b n) s = rx_asynchronous C E b n s"
| "perform C E (Rx_synchronous b n) s = rx_synchronous C E b n s"
| "perform C E Telemetry_timesync_request s = snd (telemetry_timesync_request C E s)"
| "perform C E (Telemetry_timesync_announce p u) s = snd (telemetry_timesync_announce C E p u s)"
| "perform C E Init_telemetry_router s = snd (init_telemetry_router C E s)"
| "perform C E (Log_telemetry_synchronous t d n m) s = snd (log_telemetry_synchronous C E t d n m s)"
| "perform C E (Log_telemetry_asynchronous t d n m) s = snd (log_telemetry_asynchronous C E t d n m s)"
| "perform C E Dispatch_tx_queue s = snd (dispatch_tx_queue C E s)"
| "perform C E Process_rx_queue s = snd (process_rx_queue C E s)"
| "perform C E (Dispatch_tx_queue_timeout t) s = snd (dispatch_tx_queue_timeout C E t s)"
| "perform C E (Process_rx_queue_timeout t) s = snd (process_rx_queue_timeout C E t s)"
| "perform C E (Process_all_queues_timeout t) s = snd (process_all_queues_timeout C E t s)"
| "perform C E (Log_error_asyncronous l w t) s = snd (log_error_asyncronous C E l w t s)"
| "perform C E (Log_error_syncronous l w t) s = snd (log_error_syncronous C E l w t s)"

text \<open>
  A run of the core: operations one after another, each with the answers its
  collaborators give during it.
\<close>

fun perform_all :: "config \<Rightarrow> (env \<times> operation) list \<Rightarrow> state \<Rightarrow> state" where
  "perform_all C [] s = s"
| "perform_all C ((E, x) # xs) s = perform_all C xs (perform C E x s)"

text \<open>The calls of \<open>seds_router_log_typed_ex\<close> among the recorded calls.\<close>

fun is_log_typed_ex :: "ext_call \<Rightarrow> bool" where
  "is_log_typed_ex (SEDS_ROUTER_LOG_TYPED_EX rp dt n m k q) = True"
| "is_log_typed_ex _ = False"

text \<open>
  The number of calls recorded at the moment \<open>init_telemetry_router\<close>, started in state
  \<open>s\<close>, calls \<open>seds_router_new\<close>: the subscription to the bus comes first.
\<close>

definition router_new_index :: "env \<Rightarrow> state \<Rightarrow> nat" where
  "router_new_index E s = length (trace (subscribe_can_rx E s))"

section \<open>Concrete nodes, collaborators and packets\<close>

definition client_node :: config where
  "client_node =
     \<lparr>TELEMETRY_ENABLED = True, TELEMETRY_TIME_MASTER = False, TX_TIMER_TICKS_PER_SECOND = 1000\<rparr>"

definition master_node :: config where
  "master_node =
     \<lparr>TELEMETRY_ENABLED = True, TELEMETRY_TIME_MASTER = True, TX_TIMER_TICKS_PER_SECOND = 1000\<rparr>"

text \<open>
  Collaborators that always succeed, with the hardware counter at 1025 ticks; and the
  same with one of them failing.
\<close>

definition env_ok :: env where
  "env_ok =
     \<lparr>tx_time_get = (\<lambda>i. 1025), can_bus_subscribe_rx = (\<lambda>i. True),
      can_bus_send_large = (\<lambda>i. True), seds_router_new = (\<lambda>i. Some 1),
      seds_router_add_side_serialized = (\<lambda>i. 0), seds_router_result = (\<lambda>i. SEDS_OK),
      seds_router_delivers = (\<lambda>i. [])\<rparr>"

definition env_no_router :: env where
  "env_no_router = env_ok\<lparr>seds_router_new := (\<lambda>i. None)\<rparr>"

definition env_no_side :: env where
  "env_no_side = env_ok\<lparr>seds_router_add_side_serialized := (\<lambda>i. - 1)\<rparr>"

definition env_enqueue_fails :: env where
  "env_enqueue_fails = env_ok\<lparr>seds_router_result := (\<lambda>i. SEDS_ERR)\<rparr>"

text \<open>A response one byte short.\<close>

definition short_response :: SedsPacketView where
  "short_response =
     \<lparr>ty = SEDS_DT_TIME_SYNC_RESPONSE, payload = Some (replicate 31 7), payload_len = 31\<rparr>"

text \<open>The response with sequence 1, \<open>t1 = 1000\<close>, \<open>t2 = 1010\<close> and \<open>t3 = 1012\<close>.\<close>

definition full_response :: SedsPacketView where
  "full_response =
     \<lparr>ty = SEDS_DT_TIME_SYNC_RESPONSE,
      payload = Some [1, 0, 0, 0, 0, 0, 0, 0,  232, 3, 0, 0, 0, 0, 0, 0,
                      242, 3, 0, 0, 0, 0, 0, 0,  244, 3, 0, 0, 0, 0, 0, 0],
      payload_len = 32\<rparr>"

text \<open>
  A response to a request sent at raw time 1025 that the master stamped at 2025 on
  receipt and on reply: the client's clock is 1000 ms behind.
\<close>

definition behind_response :: SedsPacketView where
  "behind_response =
     \<lparr>ty = SEDS_DT_TIME_SYNC_RESPONSE,
      payload = Some [2, 0, 0, 0, 0, 0, 0, 0,  1, 4, 0, 0, 0, 0, 0, 0,
                      233, 7, 0, 0, 0, 0, 0, 0,  233, 7, 0, 0, 0, 0, 0, 0],
      payload_len = 32\<rparr>"

text \<open>An announce with priority 0 and \<open>unix_ms = 1000\<close>.\<close>

definition an_announce :: SedsPacketView where
  "an_announce =
     \<lparr>ty = SEDS_DT_TIME_SYNC_ANNOUNCE,
      payload = Some [0, 0, 0, 0, 0, 0, 0, 0,  232, 3, 0, 0, 0, 0, 0, 0],
      payload_len = 16\<rparr>"

text \<open>A node whose router has been created.\<close>

definition state_ready :: state where
  "state_ready = state_init\<lparr>g_router := \<lparr>r = Some 1, created = 1, start_time = 0\<rparr>\<rparr>"

section \<open>The extended clock is monotone while the product fits\<close>

lemma low_zero_and_ucast:
  assumes "take_bit 32 (h :: 64 word) = 0"
  shows "h AND ucast (t :: 32 word) = 0"
proof (rule bit_eqI)
  fix n
  have "\<not> (n < 32 \<and> bit h n)"
    using assms bit_take_bit_iff [of 32 h n] by simp
  moreover have "bit (ucast t :: 64 word) n \<Longrightarrow> n < 32"
    using bit_imp_le_length [of t n] by (simp add: bit_simps)
  ultimately show "bit (h AND ucast t) n = bit (0 :: 64 word) n"
    by (auto simp add: bit_and_iff)
qed

lemma unat_high_or:
  assumes "take_bit 32 (h :: 64 word) = 0" and "unat h + 2 ^ 32 \<le> 2 ^ 64"
  shows "unat (h OR ucast (t :: 32 word)) = unat h + unat t"
proof -
  have eq: "h OR ucast t = h + ucast t"
    using low_zero_and_ucast [OF assms(1), of t] by (simp add: disjunctive_add_eq_or)
  have t: "unat t < 2 ^ 32"
    using unsigned_less [of t] by simp
  then have "unat t < 2 ^ 64"
    by (rule less_le_trans) simp
  then have u: "unat (ucast t :: 64 word) = unat t"
    by (simp add: unsigned_ucast_eq take_bit_nat_eq_self)
  note t
  with assms(2) u have "unat h + unat (ucast t :: 64 word) < 2 ^ LENGTH(64)"
    by simp
  then have "unat (h + ucast t) = unat h + unat (ucast t :: 64 word)"
    by (simp only: unat_add_lem)
  with eq u show ?thesis by simp
qed

lemma high_bump:
  assumes "take_bit 32 (h :: 64 word) = 0" and "unat h + 2 ^ 32 < 2 ^ 64"
  shows "take_bit 32 (h + push_bit 32 1) = 0" and "unat (h + push_bit 32 1) = unat h + 2 ^ 32"
proof -
  have "h = push_bit 32 (drop_bit 32 h)"
    using assms(1) bits_ident [of 32 h] by simp
  then have "h + push_bit 32 1 = push_bit 32 (drop_bit 32 h + 1)"
    by (simp add: push_bit_add)
  then show "take_bit 32 (h + push_bit 32 1) = 0"
    by (simp only: take_bit_push_bit) simp
  have p: "unat (push_bit 32 1 :: 64 word) = 2 ^ 32"
    by simp
  have "unat h + unat (push_bit 32 1 :: 64 word) < 2 ^ LENGTH(64)"
    using assms(2) p by simp
  then have "unat (h + push_bit 32 1) = unat h + unat (push_bit 32 1 :: 64 word)"
    by (simp only: unat_add_lem)
  with p show "unat (h + push_bit 32 1) = unat h + 2 ^ 32" by simp
qed


lemma tx_raw_now_ms_at_step:
  assumes "take_bit 32 (high c) = 0"
    and "unat (high c) + (if t < last_ticks32 c then 2 ^ 32 else 0) \<le> 4294966 * 2 ^ 32"
  shows "take_bit 32 (high (snd (tx_raw_now_ms_at tps t c))) = 0"
    and "unat (high (snd (tx_raw_now_ms_at tps t c)))
           = unat (high c) + (if t < last_ticks32 c then 2 ^ 32 else 0)"
    and "last_ticks32 (snd (tx_raw_now_ms_at tps t c)) = t"
    and "unat (fst (tx_raw_now_ms_at tps t c))
           = ((unat (high (snd (tx_raw_now_ms_at tps t c))) + unat t) * 1000) div unat tps"
proof -
  let ?h = "if t < last_ticks32 c then high c + push_bit 32 1 else high c"
  have snd_eq: "snd (tx_raw_now_ms_at tps t c) = \<lparr>last_ticks32 = t, high = ?h\<rparr>"
    by (simp add: tx_raw_now_ms_at_def Let_def)
  have fst_eq: "fst (tx_raw_now_ms_at tps t c) = ((?h OR ucast t) * 1000) div tps"
    by (simp add: tx_raw_now_ms_at_def Let_def)
  have small: "t < last_ticks32 c \<Longrightarrow> unat (high c) + 2 ^ 32 < 2 ^ 64"
    using assms(2) by simp
  have low: "take_bit 32 ?h = 0"
    using assms(1) high_bump(1) [OF assms(1) small] by simp
  have val: "unat ?h = unat (high c) + (if t < last_ticks32 c then 2 ^ 32 else 0)"
    using high_bump(2) [OF assms(1) small] by simp
  have bound: "unat ?h \<le> 4294966 * 2 ^ 32"
    using val assms(2) by simp
  then have "unat ?h + 2 ^ 32 \<le> 2 ^ 64"
    by simp
  with low have or_val: "unat (?h OR ucast t) = unat ?h + unat t"
    by (rule unat_high_or)
  have "unat t < 2 ^ 32"
    using unsigned_less [of t] by simp
  with bound or_val have "unat (?h OR ucast t) * unat (1000 :: 64 word) < 2 ^ LENGTH(64)"
    by simp
  then have "unat ((?h OR ucast t) * 1000) = unat (?h OR ucast t) * unat (1000 :: 64 word)"
    by (simp only: unat_mult_lem)
  then have mul: "unat ((?h OR ucast t) * 1000) = (unat ?h + unat t) * 1000"
    using or_val by simp
  show "take_bit 32 (high (snd (tx_raw_now_ms_at tps t c))) = 0"
    using low by (simp add: snd_eq)
  show "unat (high (snd (tx_raw_now_ms_at tps t c)))
           = unat (high c) + (if t < last_ticks32 c then 2 ^ 32 else 0)"
    using val by (simp add: snd_eq)
  show "last_ticks32 (snd (tx_raw_now_ms_at tps t c)) = t"
    by (simp add: snd_eq)
  show "unat (fst (tx_raw_now_ms_at tps t c))
           = ((unat (high (snd (tx_raw_now_ms_at tps t c))) + unat t) * 1000) div unat tps"
    using mul by (simp add: snd_eq fst_eq unat_div)
qed

lemma raw_now_ms_seq_sorted_from:
  assumes "take_bit 32 (high c) = 0"
    and "unat (high c) + wrap_count (last_ticks32 c) ts * 2 ^ 32 \<le> 4294966 * 2 ^ 32"
  shows "sorted (raw_now_ms_seq tps c ts)
         \<and> (\<forall>x \<in> set (raw_now_ms_seq tps c ts).
               ((unat (high c) + unat (last_ticks32 c)) * 1000) div unat tps \<le> unat x)"
  using assms
proof (induction ts arbitrary: c)
  case Nil
  then show ?case by simp
next
  case (Cons t ts)
  let ?c' = "snd (tx_raw_now_ms_at tps t c)"
  let ?ms = "fst (tx_raw_now_ms_at tps t c)"
  let ?b = "if t < last_ticks32 c then (2 :: nat) ^ 32 else 0"
  have one: "unat (high c) + ?b \<le> 4294966 * 2 ^ 32"
    using Cons.prems(2) by (simp split: if_splits)
  note st = tx_raw_now_ms_at_step [OF Cons.prems(1) one, of tps]
  have rest: "unat (high ?c') + wrap_count (last_ticks32 ?c') ts * 2 ^ 32 \<le> 4294966 * 2 ^ 32"
    using Cons.prems(2) st(2) st(3) by (simp split: if_splits)
  have ih: "sorted (raw_now_ms_seq tps ?c' ts)"
    "\<forall>x \<in> set (raw_now_ms_seq tps ?c' ts). unat ?ms \<le> unat x"
    using Cons.IH [OF st(1) rest] st(3) st(4) by simp_all
  have grow: "unat (high c) + unat (last_ticks32 c) \<le> unat (high ?c') + unat t"
  proof (cases "t < last_ticks32 c")
    case True
    have "unat (last_ticks32 c) < 2 ^ 32"
      using unsigned_less [of "last_ticks32 c"] by simp
    with True st(2) show ?thesis by simp
  next
    case False
    then have "unat (last_ticks32 c) \<le> unat t"
      by (simp add: word_less_nat_alt)
    with False st(2) show ?thesis by simp
  qed
  then have here: "((unat (high c) + unat (last_ticks32 c)) * 1000) div unat tps \<le> unat ?ms"
    unfolding st(4) by (intro div_le_mono mult_le_mono1)
  have head: "\<forall>x \<in> set (raw_now_ms_seq tps ?c' ts). ?ms \<le> x"
    using ih(2) by (simp add: word_le_nat_alt)
  have srt: "sorted (?ms # raw_now_ms_seq tps ?c' ts)"
    using ih(1) head by simp
  have above: "\<forall>x \<in> set (?ms # raw_now_ms_seq tps ?c' ts).
      ((unat (high c) + unat (last_ticks32 c)) * 1000) div unat tps \<le> unat x"
    using here ih(2) by (auto intro: order_trans)
  show ?case
    using srt above by simp
qed

text \<open>
  Claim C1, as amended. The values returned by successive calls of \<open>tx_raw_now_ms\<close>,
  started from the initial statics, are non-decreasing for every sequence of hardware
  readings that steps backwards (wraps) at most 4294966 times, whatever the readings
  are otherwise. Up to that many wraps the product \<open>ticks64 * 1000\<close> fits in 64 bits.
\<close>

theorem extended_clock_monotone:
  assumes "tps \<noteq> 0" and "wrap_count 0 ticks \<le> 4294966"
  shows "sorted (raw_now_ms_seq tps clock_init ticks)"
proof -
  have "take_bit 32 (high clock_init) = 0"
    by (simp add: clock_init_def)
  moreover have "unat (high clock_init) + wrap_count (last_ticks32 clock_init) ticks * 2 ^ 32
      \<le> 4294966 * 2 ^ 32"
    using assms(2) by (simp add: clock_init_def)
  ultimately show ?thesis
    using raw_now_ms_seq_sorted_from by blast
qed

text \<open>
  A run across a wrap from a near-maximum reading back to a small one, at 1000 ticks
  per second.
\<close>

theorem extended_clock_monotone_witness:
  "(1000 :: 64 word) \<noteq> 0 \<and> wrap_count 0 [4294967290, 4294967295, 3, 7] \<le> 4294966
   \<and> sorted (raw_now_ms_seq 1000 clock_init [4294967290, 4294967295, 3, 7])
   \<and> raw_now_ms_seq 1000 clock_init [4294967290, 4294967295, 3, 7]
       = [4294967290, 4294967295, 4294967299, 4294967303]"
  using extended_clock_monotone [of 1000 "[4294967290, 4294967295, 3, 7]"]
  by (simp add: tx_raw_now_ms_at_def clock_init_def)

lemma raw_now_ms_seq_append:
  "raw_now_ms_seq tps c (xs @ ys)
     = raw_now_ms_seq tps c xs @ raw_now_ms_seq tps (clock_after tps c xs) ys"
  by (induction xs arbitrary: c) simp_all

lemma clock_after_append:
  "clock_after tps c (xs @ ys) = clock_after tps (clock_after tps c xs) ys"
  by (induction xs arbitrary: c) simp_all

lemma wrap_cycles_Suc: "wrap_cycles (Suc n) = wrap_cycles n @ [4294967295, 0]"
proof -
  have "replicate (Suc n) [4294967295, 0 :: uint32_t] = replicate n [4294967295, 0] @ [[4294967295, 0]]"
    by (simp add: replicate_append_same)
  then show ?thesis
    unfolding wrap_cycles_def by (simp only: concat_append concat.simps append_Nil2)
qed

lemma one_wrap_cycle:
  "clock_after tps \<lparr>last_ticks32 = 0, high = h\<rparr> [4294967295, 0]
     = \<lparr>last_ticks32 = 0, high = h + push_bit 32 1\<rparr>"
  by (simp add: tx_raw_now_ms_at_def)

lemma clock_after_wrap_cycles:
  "clock_after tps \<lparr>last_ticks32 = 0, high = h\<rparr> (wrap_cycles n)
     = \<lparr>last_ticks32 = 0, high = h + of_nat n * push_bit 32 1\<rparr>"
proof (induction n)
  case 0
  then show ?case by (simp add: wrap_cycles_def)
next
  case (Suc n)
  have "clock_after tps \<lparr>last_ticks32 = 0, high = h\<rparr> (wrap_cycles (Suc n))
      = \<lparr>last_ticks32 = 0, high = (h + of_nat n * push_bit 32 1) + push_bit 32 1\<rparr>"
    unfolding wrap_cycles_Suc clock_after_append Suc one_wrap_cycle by (rule refl)
  moreover have "(h + of_nat n * push_bit 32 1) + push_bit 32 1 = h + of_nat (Suc n) * push_bit 32 (1 :: 64 word)"
    by (simp add: distrib_right)
  ultimately show ?case by (simp only:)
qed

text \<open>
  Claim C1, as stated, fails once the counter has wrapped 4294967 times: the next
  reading near the maximum makes \<open>ticks64 * 1000\<close> exceed 64 bits, and the value
  returned falls from 18446742802399232 to 3023656975.
\<close>

theorem extended_clock_drops_after_overflow:
  "\<not> sorted (raw_now_ms_seq 1000 clock_init (wrap_cycles 4294967 @ [4294967295]))"
proof -
  have st: "clock_after 1000 clock_init (wrap_cycles 4294966)
      = \<lparr>last_ticks32 = 0, high = 18446738507431936\<rparr>"
    unfolding clock_init_def clock_after_wrap_cycles by simp
  have "wrap_cycles 4294967 = wrap_cycles (Suc 4294966)"
    by simp
  also have "\<dots> = wrap_cycles 4294966 @ [4294967295, 0]"
    by (rule wrap_cycles_Suc)
  finally have split: "wrap_cycles 4294967 @ [4294967295]
      = wrap_cycles 4294966 @ [4294967295, 0, 4294967295]"
    by simp
  have tail: "raw_now_ms_seq 1000 \<lparr>last_ticks32 = 0, high = 18446738507431936\<rparr>
        [4294967295, 0, 4294967295]
      = [18446742802399231, 18446742802399232, 3023656975]"
    by (simp add: tx_raw_now_ms_at_def)
  have "raw_now_ms_seq 1000 clock_init (wrap_cycles 4294967 @ [4294967295])
      = raw_now_ms_seq 1000 clock_init (wrap_cycles 4294966)
        @ [18446742802399231, 18446742802399232, 3023656975]"
    unfolding split raw_now_ms_seq_append st tail by (rule refl)
  then show ?thesis
    by (simp add: sorted_append)
qed

section \<open>The estimator\<close>

lemma sint_sub_uint: "sint ((a::64 word) - b) = wrap_s64 (uint a - uint b)"
proof -
  have "a - b = word_of_int (uint a - uint b)" by simp
  then have "sint (a - b) = sint (word_of_int (uint a - uint b) :: 64 word)" by simp
  also have "\<dots> = signed_take_bit 63 (uint a - uint b)" by (simp only: sint_sbintrunc') simp
  finally show ?thesis by (simp add: wrap_s64_def)
qed

lemma sint_sdiv64_2: "sint (sdiv64 a 2) = quot_toward_zero (sint a) 2"
proof -
  have r: "- (2 ^ 63) \<le> sint a" "sint a < 2 ^ 63"
    using sint_ge [of a] sint_lt [of a] by simp_all
  have q: "sint a sdiv 2 = quot_toward_zero (sint a) 2"
    by (simp add: signed_divide_int_def quot_toward_zero_def sgn_if)
  have b: "- (2 ^ 63) \<le> quot_toward_zero (sint a) 2" "quot_toward_zero (sint a) 2 < 2 ^ 63"
    using r by (auto simp add: quot_toward_zero_def)
  have "sint (sdiv64 a 2) = signed_take_bit 63 (quot_toward_zero (sint a) 2)"
    unfolding sdiv64_def by (simp only: sint_sbintrunc') (simp add: q)
  also have "\<dots> = quot_toward_zero (sint a) 2"
    using b by (simp add: signed_take_bit_int_eq_self)
  finally show ?thesis .
qed

lemma sless_zero: "(d :: 64 word) <s 0 \<longleftrightarrow> sint d < 0"
  by (simp add: word_sless_alt)

lemma sint_nonneg_uint: "\<not> sint (d::64 word) < 0 \<Longrightarrow> uint d = sint d"
proof -
  assume nn: "\<not> sint d < 0"
  have u: "0 \<le> uint d" "uint d < 2 ^ 64"
    using uint_lt2p [of d] by simp_all
  have s: "sint d = signed_take_bit 63 (uint d)"
    using sint_uint [of d] by simp
  have "uint d < 2 ^ 63"
  proof (rule ccontr)
    assume "\<not> uint d < 2 ^ 63"
    then have "2 ^ 63 \<le> uint d" by simp
    then have "signed_take_bit 63 (uint d) \<le> uint d - 2 ^ Suc 63"
      by (rule signed_take_bit_int_less_eq)
    then have "sint d \<le> uint d - 18446744073709551616"
      using s by simp
    moreover have "uint d < 18446744073709551616"
      using u by simp
    ultimately show False using nn by linarith
  qed
  moreover have "- (2 ^ 63) \<le> uint d"
    by (rule order_trans [of _ 0]) simp_all
  ultimately have "signed_take_bit 63 (uint d) = uint d"
    by (intro signed_take_bit_int_eq_self)
  with s show ?thesis by simp
qed

text \<open>
  Claim C2. For all four timestamps, the offset returned by \<open>compute_offset_delay\<close>,
  read as a signed 64-bit value, is \<open>((t2 - t1) + (t3 - t4)) / 2\<close> with the differences
  and their sum taken in signed 64-bit arithmetic and the quotient truncated toward zero;
  the delay returned is \<open>(t4 - t1) - (t3 - t2)\<close> in the same arithmetic, replaced by 0
  when it is negative; and the delay is never negative.
\<close>

theorem compute_offset_delay_estimate:
  "sint (fst (compute_offset_delay t1 t2 t3 t4))
     = estimate_offset (uint t1) (uint t2) (uint t3) (uint t4)
   \<and> uint (snd (compute_offset_delay t1 t2 t3 t4))
     = estimate_delay (uint t1) (uint t2) (uint t3) (uint t4)
   \<and> 0 \<le> estimate_delay (uint t1) (uint t2) (uint t3) (uint t4)"
proof -
  let ?d = "(t4 - t1) - (t3 - t2)"
  have o: "sint ((t2 - t1) + (t3 - t4)) = wrap_s64 (wrap_s64 (uint t2 - uint t1) + wrap_s64 (uint t3 - uint t4))"
  proof -
    have "sint ((t2 - t1) + (t3 - t4)) = signed_take_bit 63 (sint (t2 - t1) + sint (t3 - t4))"
      using sint_word_add [of "t2 - t1" "t3 - t4"] by simp
    also have "\<dots> = wrap_s64 (sint (t2 - t1) + sint (t3 - t4))"
      by (simp add: wrap_s64_def)
    finally show ?thesis by (simp only: sint_sub_uint)
  qed
  have d: "sint ?d = wrap_s64 (wrap_s64 (uint t4 - uint t1) - wrap_s64 (uint t3 - uint t2))"
  proof -
    have "sint ?d = signed_take_bit 63 (sint (t4 - t1) - sint (t3 - t2))"
      using sint_word_diff [of "t4 - t1" "t3 - t2"] by simp
    also have "\<dots> = wrap_s64 (sint (t4 - t1) - sint (t3 - t2))"
      by (simp add: wrap_s64_def)
    finally show ?thesis by (simp only: sint_sub_uint)
  qed
  have pos: "\<not> sint ?d < 0 \<Longrightarrow> uint ?d = sint ?d"
    by (rule sint_nonneg_uint)
  show ?thesis
    using pos
    by (auto simp add: compute_offset_delay_def Let_def sint_sdiv64_2 estimate_offset_def estimate_delay_def o d [symmetric] sless_zero)
qed

section \<open>Bounded and smoothed application of an offset\<close>

lemma sint_sdiv64_pos:
  assumes "0 < sint b"
  shows "sint (sdiv64 a b) = quot_toward_zero (sint a) (sint b)"
proof -
  have r: "- (2 ^ 63) \<le> sint a" "sint a < 2 ^ 63"
    using sint_ge [of a] sint_lt [of a] by simp_all
  have q: "sint a sdiv sint b = quot_toward_zero (sint a) (sint b)"
    using assms by (simp add: signed_divide_int_def quot_toward_zero_def sgn_if)
  have le: "\<bar>sint a\<bar> div \<bar>sint b\<bar> \<le> \<bar>sint a\<bar>"
  proof (cases "sint a = 0")
    case True
    then show ?thesis by simp
  next
    case False
    then have "0 < \<bar>sint a\<bar>" by simp
    then show ?thesis by (rule int_div_le_self)
  qed
  have nn: "0 \<le> \<bar>sint a\<bar> div \<bar>sint b\<bar>"
    by (simp add: div_int_pos_iff)
  have b1: "- (2 ^ 63) \<le> quot_toward_zero (sint a) (sint b)"
    using r le nn assms unfolding quot_toward_zero_def by (simp split: if_splits) linarith
  have b2: "quot_toward_zero (sint a) (sint b) < 2 ^ 63"
    using r le nn assms unfolding quot_toward_zero_def by (simp split: if_splits) linarith
  have "sint (sdiv64 a b) = signed_take_bit 63 (quot_toward_zero (sint a) (sint b))"
    unfolding sdiv64_def by (simp only: sint_sbintrunc') (simp add: q)
  also have "\<dots> = quot_toward_zero (sint a) (sint b)"
    using b1 b2 by (intro signed_take_bit_int_eq_self)
  finally show ?thesis .
qed

lemma sint_MAX: "sint NET_TIMESYNC_MAX_STEP_MS = 30000" "sint (- NET_TIMESYNC_MAX_STEP_MS) = - 30000"
  by (simp_all add: NET_TIMESYNC_MAX_STEP_MS_def)

lemma sint_DIV: "sint NET_TIMESYNC_SMOOTH_DIV = 4"
  by (simp add: NET_TIMESYNC_SMOOTH_DIV_def)

lemma client_apply_offset_ms_reject:
  "30000 < \<bar>sint c\<bar> \<Longrightarrow> client_apply_offset_ms c g = g"
  by (auto simp add: client_apply_offset_ms_def word_sless_alt sint_MAX)

lemma client_apply_offset_ms_step:
  assumes "\<bar>sint c\<bar> \<le> 30000"
  shows "sint (client_apply_offset_ms c g - g) = smooth_step (sint c)"
proof -
  let ?s = "sdiv64 c NET_TIMESYNC_SMOOTH_DIV"
  have q: "sint ?s = quot_toward_zero (sint c) 4"
    using sint_sdiv64_pos [of NET_TIMESYNC_SMOOTH_DIV c] by (simp add: sint_DIV)
  have z: "?s = 0 \<longleftrightarrow> quot_toward_zero (sint c) 4 = 0"
    using q signed_eq_0_iff [where ?'a = int, of ?s] by simp
  have acc: "\<not> (NET_TIMESYNC_MAX_STEP_MS <s c \<or> c <s - NET_TIMESYNC_MAX_STEP_MS)"
    using assms by (auto simp add: word_sless_alt sint_MAX)
  have zero: "sint c = 0 \<Longrightarrow> quot_toward_zero (sint c) 4 = 0"
    by (simp add: quot_toward_zero_def)
  show ?thesis
    using acc zero
    by (auto simp add: client_apply_offset_ms_def Let_def z q smooth_step_def word_sless_alt sgn_if)
qed

lemma smooth_step_bounds:
  assumes "c \<noteq> 0"
  shows "1 \<le> \<bar>smooth_step c\<bar>" "\<bar>smooth_step c\<bar> \<le> \<bar>c\<bar>" "sgn (smooth_step c) = sgn c"
  using assms by (auto simp add: smooth_step_def quot_toward_zero_def sgn_if split: if_splits)


text \<open>
  Claim C3. A candidate whose magnitude exceeds \<open>NET_TIMESYNC_MAX_STEP_MS\<close> leaves
  \<open>g_master_offset_ms\<close> unchanged. For a non-zero candidate within the bound, the step
  added to \<open>g_master_offset_ms\<close> has magnitude at least 1 and at most that of the
  candidate, has the candidate's sign, and is the unit step in that sign when the
  candidate divided by \<open>NET_TIMESYNC_SMOOTH_DIV\<close> truncates to zero.
\<close>

theorem offset_application_bounded:
  "(sint NET_TIMESYNC_MAX_STEP_MS < \<bar>sint c\<bar> \<longrightarrow> client_apply_offset_ms c g = g)
   \<and> (0 < \<bar>sint c\<bar> \<and> \<bar>sint c\<bar> \<le> sint NET_TIMESYNC_MAX_STEP_MS \<longrightarrow>
        1 \<le> \<bar>sint (client_apply_offset_ms c g - g)\<bar>
        \<and> \<bar>sint (client_apply_offset_ms c g - g)\<bar> \<le> \<bar>sint c\<bar>
        \<and> sgn (sint (client_apply_offset_ms c g - g)) = sgn (sint c)
        \<and> (quot_toward_zero (sint c) (sint NET_TIMESYNC_SMOOTH_DIV) = 0 \<longrightarrow>
               sint (client_apply_offset_ms c g - g) = sgn (sint c)))"
proof (intro conjI impI)
  assume "sint NET_TIMESYNC_MAX_STEP_MS < \<bar>sint c\<bar>"
  then show "client_apply_offset_ms c g = g"
    using client_apply_offset_ms_reject [of c g] by (simp add: sint_MAX)
next
  assume a: "0 < \<bar>sint c\<bar> \<and> \<bar>sint c\<bar> \<le> sint NET_TIMESYNC_MAX_STEP_MS"
  then have st: "sint (client_apply_offset_ms c g - g) = smooth_step (sint c)"
    using client_apply_offset_ms_step [of c g] by (simp add: sint_MAX)
  from a have nz: "sint c \<noteq> 0" by auto
  show "1 \<le> \<bar>sint (client_apply_offset_ms c g - g)\<bar>"
    unfolding st using smooth_step_bounds(1) [OF nz] .
  show "\<bar>sint (client_apply_offset_ms c g - g)\<bar> \<le> \<bar>sint c\<bar>"
    unfolding st using smooth_step_bounds(2) [OF nz] .
  show "sgn (sint (client_apply_offset_ms c g - g)) = sgn (sint c)"
    unfolding st using smooth_step_bounds(3) [OF nz] .
  assume "quot_toward_zero (sint c) (sint NET_TIMESYNC_SMOOTH_DIV) = 0"
  then show "sint (client_apply_offset_ms c g - g) = sgn (sint c)"
    unfolding st by (simp add: smooth_step_def sint_DIV)
qed

text \<open>A rejected candidate of 30001 ms and an accepted one of -3 ms.\<close>

theorem offset_application_bounded_witness:
  "sint NET_TIMESYNC_MAX_STEP_MS < \<bar>sint (30001 :: 64 word)\<bar>
   \<and> client_apply_offset_ms 30001 5 = 5
   \<and> 0 < \<bar>sint (- 3 :: 64 word)\<bar> \<and> \<bar>sint (- 3 :: 64 word)\<bar> \<le> sint NET_TIMESYNC_MAX_STEP_MS
   \<and> quot_toward_zero (sint (- 3 :: 64 word)) (sint NET_TIMESYNC_SMOOTH_DIV) = 0
   \<and> sint (client_apply_offset_ms (- 3) 10 - 10) = - 1"
  using offset_application_bounded [of 30001 5] offset_application_bounded [of "- 3" 10]
  by (simp add: quot_toward_zero_def sint_MAX sint_DIV)

lemma apply_1000_once: "client_apply_offset_ms 1000 g = g + 250"
  by (simp add: client_apply_offset_ms_def sdiv64_def NET_TIMESYNC_MAX_STEP_MS_def
      NET_TIMESYNC_SMOOTH_DIV_def word_sless_alt signed_divide_int_def)


section \<open>The time-sync endpoint\<close>

lemma tx_raw_now_ms_state:
  "snd (tx_raw_now_ms C E s)
     = s\<lparr>trace := trace s @ [TX_TIME_GET],
         clk := snd (tx_raw_now_ms_at (TX_TIMER_TICKS_PER_SECOND C)
                       (tx_time_get E (length (trace s))) (clk s))\<rparr>"
  by (simp add: tx_raw_now_ms_def record_call_def Let_def split_def)

lemma tx_raw_now_ms_value:
  "fst (tx_raw_now_ms C E s)
     = fst (tx_raw_now_ms_at (TX_TIMER_TICKS_PER_SECOND C)
              (tx_time_get E (length (trace s))) (clk s))"
  by (simp add: tx_raw_now_ms_def record_call_def Let_def split_def)

lemma telemetry_now_ms_state:
  "snd (telemetry_now_ms C E s) = snd (tx_raw_now_ms C E s)"
  by (simp add: telemetry_now_ms_def Let_def split_def)

text \<open>
  Claim C5. A \<open>TIME_SYNC_RESPONSE\<close> whose payload is 31 bytes long, one short of the
  32 bytes required, is dropped by \<open>on_timesync\<close> on any node: the call returns
  \<open>SEDS_OK\<close> and leaves the whole state as it was, in particular
  \<open>g_master_offset_ms\<close> and \<open>g_last_delay_ms\<close>.
\<close>

theorem short_response_dropped:
  assumes "ty p = SEDS_DT_TIME_SYNC_RESPONSE"
    and "payload p = Some bs" and "length bs = 31" and "payload_len p = 31"
  shows "on_timesync C E (Some p) s = (SEDS_OK, s)
    \<and> g_master_offset_ms (snd (on_timesync C E (Some p) s)) = g_master_offset_ms s
    \<and> g_last_delay_ms (snd (on_timesync C E (Some p) s)) = g_last_delay_ms s"
proof -
  have "on_timesync C E (Some p) s = (SEDS_OK, s)"
    using assms by (simp add: on_timesync_def)
  then show ?thesis by simp
qed

text \<open>A 31-byte response on a client whose router is up.\<close>

theorem short_response_dropped_witness:
  "ty short_response = SEDS_DT_TIME_SYNC_RESPONSE
   \<and> payload short_response = Some (replicate 31 7) \<and> length (replicate 31 (7 :: uint8_t)) = 31
   \<and> payload_len short_response = 31
   \<and> on_timesync client_node env_ok (Some short_response) state_ready = (SEDS_OK, state_ready)"
  using short_response_dropped [of short_response "replicate 31 7" client_node env_ok state_ready]
  by (simp add: short_response_def)

text \<open>
  Claim C7, as amended. On a master, a well-formed \<open>TIME_SYNC_RESPONSE\<close> returns
  \<open>SEDS_OK\<close> and leaves \<open>g_master_offset_ms\<close>, the unix base and its validity, the
  router state and the sequence counter unchanged; \<open>g_last_delay_ms\<close> is overwritten
  with the delay that \<open>compute_offset_delay\<close> finds for the payload's \<open>t1\<close>, \<open>t2\<close>,
  \<open>t3\<close> and the time of receipt.
\<close>

theorem master_response_frame:
  assumes "TELEMETRY_TIME_MASTER C" and "ty p = SEDS_DT_TIME_SYNC_RESPONSE"
    and "payload p = Some bs" and "payload_len p = length bs" and "32 \<le> length bs"
  shows "fst (on_timesync C E (Some p) s) = SEDS_OK
    \<and> g_master_offset_ms (snd (on_timesync C E (Some p) s)) = g_master_offset_ms s
    \<and> g_unix_base_ms (snd (on_timesync C E (Some p) s)) = g_unix_base_ms s
    \<and> g_unix_valid (snd (on_timesync C E (Some p) s)) = g_unix_valid s
    \<and> g_router (snd (on_timesync C E (Some p) s)) = g_router s
    \<and> g_timesync_seq (snd (on_timesync C E (Some p) s)) = g_timesync_seq s
    \<and> g_last_delay_ms (snd (on_timesync C E (Some p) s))
        = snd (compute_offset_delay (load_u64 bs 8) (load_u64 bs 16) (load_u64 bs 24)
                 (fst (tx_raw_now_ms C E s)))"
proof -
  have "on_timesync C E (Some p) s
      = (SEDS_OK, (snd (tx_raw_now_ms C E s))
           \<lparr>g_last_delay_ms := snd (compute_offset_delay (load_u64 bs 8) (load_u64 bs 16)
                (load_u64 bs 24) (fst (tx_raw_now_ms C E s)))\<rparr>)"
    using assms by (simp add: on_timesync_def Let_def split_def)
  then show ?thesis
    by (simp add: tx_raw_now_ms_state)
qed


lemma telemetry_now_ms_frame:
  "g_router (snd (telemetry_now_ms C E s)) = g_router s"
  "g_can_side_id (snd (telemetry_now_ms C E s)) = g_can_side_id s"
  "g_unix_valid (snd (telemetry_now_ms C E s)) = g_unix_valid s"
  "g_timesync_seq (snd (telemetry_now_ms C E s)) = g_timesync_seq s"
  "trace (snd (telemetry_now_ms C E s)) = trace s @ [TX_TIME_GET]"
  by (simp_all add: telemetry_now_ms_state tx_raw_now_ms_state)

lemma subscribe_can_rx_frame:
  "g_unix_valid (subscribe_can_rx E s) = g_unix_valid s"
  "filter is_log_typed_ex (trace (subscribe_can_rx E s)) = filter is_log_typed_ex (trace s)"
  by (simp_all add: subscribe_can_rx_def record_call_def)

lemma add_can_side_frame:
  "g_unix_valid (add_can_side E s) = g_unix_valid s"
  "filter is_log_typed_ex (trace (add_can_side E s)) = filter is_log_typed_ex (trace s)"
  by (simp_all add: add_can_side_def record_call_def Let_def)

lemma init_already_created:
  assumes "created (g_router s) \<noteq> 0" and "r (g_router s) \<noteq> None"
  shows "init_telemetry_router C E s = (SEDS_OK, s)"
  using assms by (simp add: init_telemetry_router_def)

lemma init_router_new_fails:
  assumes "TELEMETRY_ENABLED C"
    and "\<not> (created (g_router s) \<noteq> 0 \<and> r (g_router s) \<noteq> None)"
    and "seds_router_new E (router_new_index E s) = None"
  shows "fst (init_telemetry_router C E s) = SEDS_ERR"
    and "r (g_router (snd (init_telemetry_router C E s))) = None"
    and "created (g_router (snd (init_telemetry_router C E s))) = 0"
    and "g_can_side_id (snd (init_telemetry_router C E s)) = - 1"
  using assms
  by (auto simp add: init_telemetry_router_def router_new_index_def record_call_def Let_def)

lemma init_router_new_succeeds:
  assumes "TELEMETRY_ENABLED C"
    and "\<not> (created (g_router s) \<noteq> 0 \<and> r (g_router s) \<noteq> None)"
    and "seds_router_new E (router_new_index E s) = Some rp"
  shows "fst (init_telemetry_router C E s) = SEDS_OK"
    and "r (g_router (snd (init_telemetry_router C E s))) = Some rp"
    and "created (g_router (snd (init_telemetry_router C E s))) = 1"
  using assms
  by (auto simp add: init_telemetry_router_def router_new_index_def record_call_def Let_def
      split_def telemetry_now_ms_frame)


lemma load_full_response:
  "load_u64 [1, 0, 0, 0, 0, 0, 0, 0,  232, 3, 0, 0, 0, 0, 0, 0,
             242, 3, 0, 0, 0, 0, 0, 0,  244, 3, 0, 0, 0, 0, 0, 0] 8 = 1000"
  "load_u64 [1, 0, 0, 0, 0, 0, 0, 0,  232, 3, 0, 0, 0, 0, 0, 0,
             242, 3, 0, 0, 0, 0, 0, 0,  244, 3, 0, 0, 0, 0, 0, 0] 16 = 1010"
  "load_u64 [1, 0, 0, 0, 0, 0, 0, 0,  232, 3, 0, 0, 0, 0, 0, 0,
             242, 3, 0, 0, 0, 0, 0, 0,  244, 3, 0, 0, 0, 0, 0, 0] 24 = 1012"
  by (simp_all add: load_u64_def)

lemma raw_now_1025:
  "fst (tx_raw_now_ms master_node env_ok state_init) = 1025"
  "fst (tx_raw_now_ms client_node env_ok state_init) = 1025"
  by (simp_all add: tx_raw_now_ms_value master_node_def client_node_def env_ok_def state_init_def
      clock_init_def tx_raw_now_ms_at_def)

lemma delay_23: "compute_offset_delay 1000 1010 1012 1025 = (- 1, 23)"
  by (simp add: compute_offset_delay_def sdiv64_def signed_divide_int_def word_sless_alt)

text \<open>
  The master receives the response \<open>(1, 1000, 1010, 1012)\<close> at raw time 1025: the
  offset stays, the delay becomes 23.
\<close>

theorem master_response_frame_witness:
  "TELEMETRY_TIME_MASTER master_node \<and> ty full_response = SEDS_DT_TIME_SYNC_RESPONSE
   \<and> payload_len full_response = 32
   \<and> fst (on_timesync master_node env_ok (Some full_response) state_init) = SEDS_OK
   \<and> g_master_offset_ms (snd (on_timesync master_node env_ok (Some full_response) state_init))
       = g_master_offset_ms state_init
   \<and> g_last_delay_ms (snd (on_timesync master_node env_ok (Some full_response) state_init)) = 23"
proof -
  let ?bs = "[1, 0, 0, 0, 0, 0, 0, 0,  232, 3, 0, 0, 0, 0, 0, 0,
              242, 3, 0, 0, 0, 0, 0, 0,  244, 3, 0, 0, 0, 0, 0, 0] :: uint8_t list"
  have h1: "TELEMETRY_TIME_MASTER master_node"
    by (simp add: master_node_def)
  have h2: "ty full_response = SEDS_DT_TIME_SYNC_RESPONSE"
    by (simp add: full_response_def)
  have h3: "payload full_response = Some ?bs"
    by (simp add: full_response_def)
  have h4: "payload_len full_response = length ?bs"
    by (simp add: full_response_def)
  have h5: "32 \<le> length ?bs"
    by simp
  note t = master_response_frame [OF h1 h2 h3 h4 h5, of env_ok state_init]
  from t have "g_last_delay_ms (snd (on_timesync master_node env_ok (Some full_response) state_init))
      = snd (compute_offset_delay 1000 1010 1012 1025)"
    by (simp only: load_full_response raw_now_1025)
  then have d: "g_last_delay_ms (snd (on_timesync master_node env_ok (Some full_response) state_init)) = 23"
    by (simp only: delay_23 snd_conv)
  have l: "payload_len full_response = 32"
    by (simp add: full_response_def)
  show ?thesis
    using h1 h2 l t d by blast
qed

text \<open>
  Claim C7, as stated, fails: only \<open>client_apply_offset_ms\<close> is compiled out on a
  master, so the response above changes \<open>g_last_delay_ms\<close> from 0 to 23.
\<close>

theorem master_response_sets_delay:
  "TELEMETRY_TIME_MASTER master_node
   \<and> g_last_delay_ms state_init = 0
   \<and> g_last_delay_ms (snd (on_timesync master_node env_ok (Some full_response) state_init)) = 23"
proof -
  have "on_timesync master_node env_ok (Some full_response) state_init
      = (SEDS_OK, (snd (tx_raw_now_ms master_node env_ok state_init))\<lparr>g_last_delay_ms := 23\<rparr>)"
    by (simp add: on_timesync_def full_response_def load_full_response Let_def split_def
        raw_now_1025 delay_23) (simp add: master_node_def)
  then show ?thesis
    by (simp add: master_node_def state_init_def)
qed

section \<open>Router initialisation: failure, retry, repetition\<close>

text \<open>
  Claim C8, as amended. With telemetry enabled: a call of \<open>init_telemetry_router\<close> on
  a created router returns \<open>SEDS_OK\<close> and changes nothing. When \<open>seds_router_new\<close>,
  which also registers the endpoints, returns null, the call returns \<open>SEDS_ERR\<close> and
  leaves the router pointer null and the created flag 0, and a later call in which
  \<open>seds_router_new\<close> succeeds returns \<open>SEDS_OK\<close> with the router created. When
  \<open>seds_router_new\<close> succeeds the call returns \<open>SEDS_OK\<close> with the router created,
  whatever the bus subscription and the attachment of the CAN side answered.
\<close>

theorem init_failure_leaves_uncreated:
  assumes "TELEMETRY_ENABLED C"
  shows "(created (g_router s) \<noteq> 0 \<and> r (g_router s) \<noteq> None \<longrightarrow>
            init_telemetry_router C E s = (SEDS_OK, s))
    \<and> (\<not> (created (g_router s) \<noteq> 0 \<and> r (g_router s) \<noteq> None)
          \<and> seds_router_new E (router_new_index E s) = None \<longrightarrow>
            fst (init_telemetry_router C E s) = SEDS_ERR
            \<and> r (g_router (snd (init_telemetry_router C E s))) = None
            \<and> created (g_router (snd (init_telemetry_router C E s))) = 0
            \<and> (\<forall>E' rp. seds_router_new E' (router_new_index E' (snd (init_telemetry_router C E s)))
                           = Some rp \<longrightarrow>
                   fst (init_telemetry_router C E' (snd (init_telemetry_router C E s))) = SEDS_OK
                   \<and> r (g_router (snd (init_telemetry_router C E'
                            (snd (init_telemetry_router C E s))))) = Some rp
                   \<and> created (g_router (snd (init_telemetry_router C E'
                            (snd (init_telemetry_router C E s))))) = 1))
    \<and> (\<not> (created (g_router s) \<noteq> 0 \<and> r (g_router s) \<noteq> None)
          \<and> seds_router_new E (router_new_index E s) = Some rp \<longrightarrow>
            fst (init_telemetry_router C E s) = SEDS_OK
            \<and> r (g_router (snd (init_telemetry_router C E s))) = Some rp
            \<and> created (g_router (snd (init_telemetry_router C E s))) = 1)"
proof (intro conjI impI allI)
  assume "created (g_router s) \<noteq> 0 \<and> r (g_router s) \<noteq> None"
  then show "init_telemetry_router C E s = (SEDS_OK, s)"
    by (simp add: init_already_created)
next
  assume a: "\<not> (created (g_router s) \<noteq> 0 \<and> r (g_router s) \<noteq> None)
      \<and> seds_router_new E (router_new_index E s) = None"
  then have n: "\<not> (created (g_router s) \<noteq> 0 \<and> r (g_router s) \<noteq> None)"
    and f: "seds_router_new E (router_new_index E s) = None"
    by blast+
  note fl = init_router_new_fails [OF assms n f]
  show "fst (init_telemetry_router C E s) = SEDS_ERR"
    by (rule fl(1))
  show "r (g_router (snd (init_telemetry_router C E s))) = None"
    by (rule fl(2))
  show "created (g_router (snd (init_telemetry_router C E s))) = 0"
    by (rule fl(3))
  fix E' rp
  assume ok: "seds_router_new E' (router_new_index E' (snd (init_telemetry_router C E s))) = Some rp"
  have n': "\<not> (created (g_router (snd (init_telemetry_router C E s))) \<noteq> 0
      \<and> r (g_router (snd (init_telemetry_router C E s))) \<noteq> None)"
    using fl(2) by simp
  note su = init_router_new_succeeds [OF assms n' ok]
  show "fst (init_telemetry_router C E' (snd (init_telemetry_router C E s))) = SEDS_OK"
    by (rule su(1))
  show "r (g_router (snd (init_telemetry_router C E' (snd (init_telemetry_router C E s))))) = Some rp"
    by (rule su(2))
  show "created (g_router (snd (init_telemetry_router C E' (snd (init_telemetry_router C E s))))) = 1"
    by (rule su(3))
next
  assume a: "\<not> (created (g_router s) \<noteq> 0 \<and> r (g_router s) \<noteq> None)
      \<and> seds_router_new E (router_new_index E s) = Some rp"
  then have n: "\<not> (created (g_router s) \<noteq> 0 \<and> r (g_router s) \<noteq> None)"
    and f: "seds_router_new E (router_new_index E s) = Some rp"
    by blast+
  note su = init_router_new_succeeds [OF assms n f]
  show "fst (init_telemetry_router C E s) = SEDS_OK"
    by (rule su(1))
  show "r (g_router (snd (init_telemetry_router C E s))) = Some rp"
    by (rule su(2))
  show "created (g_router (snd (init_telemetry_router C E s))) = 1"
    by (rule su(3))
qed

text \<open>A failed creation, a retry that succeeds, and a repeated call on a created router.\<close>

theorem init_failure_leaves_uncreated_witness:
  "TELEMETRY_ENABLED client_node
   \<and> \<not> (created (g_router state_init) \<noteq> 0 \<and> r (g_router state_init) \<noteq> None)
   \<and> seds_router_new env_no_router (router_new_index env_no_router state_init) = None
   \<and> fst (init_telemetry_router client_node env_no_router state_init) = SEDS_ERR
   \<and> r (g_router (snd (init_telemetry_router client_node env_no_router state_init))) = None
   \<and> created (g_router (snd (init_telemetry_router client_node env_no_router state_init))) = 0
   \<and> fst (init_telemetry_router client_node env_ok
             (snd (init_telemetry_router client_node env_no_router state_init))) = SEDS_OK
   \<and> created (g_router state_ready) \<noteq> 0 \<and> r (g_router state_ready) \<noteq> None
   \<and> init_telemetry_router client_node env_ok state_ready = (SEDS_OK, state_ready)"
proof -
  have e: "TELEMETRY_ENABLED client_node"
    by (simp add: client_node_def)
  have n: "\<not> (created (g_router state_init) \<noteq> 0 \<and> r (g_router state_init) \<noteq> None)"
    by (simp add: state_init_def)
  have f: "seds_router_new env_no_router (router_new_index env_no_router state_init) = None"
    by (simp add: env_no_router_def)
  have k: "seds_router_new env_ok (router_new_index env_ok
      (snd (init_telemetry_router client_node env_no_router state_init))) = Some 1"
    by (simp add: env_ok_def)
  have c: "created (g_router state_ready) \<noteq> 0 \<and> r (g_router state_ready) \<noteq> None"
    by (simp add: state_ready_def)
  note t = init_failure_leaves_uncreated [OF e, of state_init env_no_router]
  note u = init_failure_leaves_uncreated [OF e, of state_ready env_ok]
  from t n f have 1: "fst (init_telemetry_router client_node env_no_router state_init) = SEDS_ERR"
    and 2: "r (g_router (snd (init_telemetry_router client_node env_no_router state_init))) = None"
    and 3: "created (g_router (snd (init_telemetry_router client_node env_no_router state_init))) = 0"
    by blast+
  from t n f k have 4: "fst (init_telemetry_router client_node env_ok
             (snd (init_telemetry_router client_node env_no_router state_init))) = SEDS_OK"
    by blast
  from u c have 5: "init_telemetry_router client_node env_ok state_ready = (SEDS_OK, state_ready)"
    by blast
  show ?thesis
    using e n f 1 2 3 4 c 5 by blast
qed

text \<open>
  Claim C8, as stated, fails at the attachment of the transport side: when
  \<open>seds_router_add_side_serialized\<close> returns a negative id the error is printed, the
  side id is reset to -1, and the call still returns \<open>SEDS_OK\<close> with the router created.
\<close>

theorem init_succeeds_without_side:
  "seds_router_add_side_serialized env_no_side 2 <s 0
   \<and> fst (init_telemetry_router client_node env_no_side state_init) = SEDS_OK
   \<and> r (g_router (snd (init_telemetry_router client_node env_no_side state_init))) = Some 1
   \<and> created (g_router (snd (init_telemetry_router client_node env_no_side state_init))) = 1
   \<and> g_can_side_id (snd (init_telemetry_router client_node env_no_side state_init)) = - 1
   \<and> trace (snd (init_telemetry_router client_node env_no_side state_init))
       = [CAN_BUS_SUBSCRIBE_RX, SEDS_ROUTER_NEW, SEDS_ROUTER_ADD_SIDE_SERIALIZED,
          PRINTF ''Error: failed to add CAN side: %ld'' [- 1], TX_TIME_GET]"
  by (simp add: init_telemetry_router_def subscribe_can_rx_def add_can_side_def client_node_def
      env_no_side_def env_ok_def state_init_def record_call_def Let_def split_def word_sless_alt
      telemetry_now_ms_def tx_raw_now_ms_def)

section \<open>The sequence counter of requests\<close>

lemma router_ready_when_created:
  "r (g_router s) \<noteq> None \<Longrightarrow> router_ready C E s = (True, s)"
  by (auto simp add: router_ready_def)

lemma word64_less_succ:
  assumes "x \<noteq> (- 1 :: 64 word)"
  shows "x < x + 1"
proof -
  have "x + 1 \<noteq> 0"
    using assms by (simp add: eq_neg_iff_add_eq_0)
  then have "unat ((x + 1) - 1) < unat (x + 1)"
    by (rule measure_unat)
  then show ?thesis
    by (simp add: word_less_nat_alt)
qed

text \<open>
  Claim C10. On a client with telemetry enabled and the router created, every call of
  \<open>telemetry_timesync_request\<close> adds one to \<open>g_timesync_seq\<close>, sends the value it had
  before together with \<open>t1\<close>, and returns whatever \<open>seds_router_log_ts\<close> returns: the
  counter advances whether or not the router accepted the request. Below the largest
  64-bit value the counter grows strictly.
\<close>

theorem timesync_request_advances_seq:
  assumes "TELEMETRY_ENABLED C" and "\<not> TELEMETRY_TIME_MASTER C" and "r (g_router s) \<noteq> None"
  shows "g_timesync_seq (snd (telemetry_timesync_request C E s)) = g_timesync_seq s + 1
    \<and> fst (telemetry_timesync_request C E s) = seds_router_result E (Suc (length (trace s)))
    \<and> trace (snd (telemetry_timesync_request C E s))
        = trace s @ [TX_TIME_GET,
            SEDS_ROUTER_LOG_TS (r (g_router s)) SEDS_DT_TIME_SYNC_REQUEST
              (fst (tx_raw_now_ms C E s)) [g_timesync_seq s, fst (tx_raw_now_ms C E s)]]
    \<and> (g_timesync_seq s \<noteq> - 1 \<longrightarrow>
          g_timesync_seq s < g_timesync_seq (snd (telemetry_timesync_request C E s)))"
proof -
  let ?t1 = "fst (tx_raw_now_ms C E s)"
  let ?s2 = "snd (tx_raw_now_ms C E s)"
  have eq: "telemetry_timesync_request C E s
      = seds_router_log_ts E (r (g_router ?s2)) SEDS_DT_TIME_SYNC_REQUEST ?t1
          [g_timesync_seq ?s2, ?t1] (?s2\<lparr>g_timesync_seq := g_timesync_seq ?s2 + 1\<rparr>)"
    using assms
    by (simp add: telemetry_timesync_request_def router_ready_when_created Let_def split_def)
  have seq: "g_timesync_seq (snd (telemetry_timesync_request C E s)) = g_timesync_seq s + 1"
    unfolding eq by (simp add: seds_router_log_ts_def record_call_def tx_raw_now_ms_state)
  have res: "fst (telemetry_timesync_request C E s) = seds_router_result E (Suc (length (trace s)))"
    unfolding eq by (simp add: seds_router_log_ts_def record_call_def tx_raw_now_ms_state)
  have tr: "trace (snd (telemetry_timesync_request C E s))
        = trace s @ [TX_TIME_GET,
            SEDS_ROUTER_LOG_TS (r (g_router s)) SEDS_DT_TIME_SYNC_REQUEST ?t1 [g_timesync_seq s, ?t1]]"
    unfolding eq by (simp add: seds_router_log_ts_def record_call_def tx_raw_now_ms_state)
  have up: "g_timesync_seq s \<noteq> - 1 \<Longrightarrow> g_timesync_seq s < g_timesync_seq s + 1"
    by (rule word64_less_succ)
  show ?thesis
    using seq res tr up by simp
qed

text \<open>A request that the router refuses: the call returns the error and the counter is 2.\<close>

theorem timesync_request_advances_seq_witness:
  "TELEMETRY_ENABLED client_node \<and> \<not> TELEMETRY_TIME_MASTER client_node
   \<and> r (g_router state_ready) \<noteq> None
   \<and> g_timesync_seq state_ready = 1
   \<and> g_timesync_seq state_ready \<noteq> - 1
   \<and> fst (telemetry_timesync_request client_node env_enqueue_fails state_ready) = SEDS_ERR
   \<and> g_timesync_seq (snd (telemetry_timesync_request client_node env_enqueue_fails state_ready)) = 2
   \<and> g_timesync_seq state_ready
       < g_timesync_seq (snd (telemetry_timesync_request client_node env_enqueue_fails state_ready))"
proof -
  have e: "TELEMETRY_ENABLED client_node" and m: "\<not> TELEMETRY_TIME_MASTER client_node"
    by (simp_all add: client_node_def)
  have c: "r (g_router state_ready) \<noteq> None"
    by (simp add: state_ready_def)
  have q: "g_timesync_seq state_ready = 1"
    by (simp add: state_ready_def state_init_def)
  have n: "g_timesync_seq state_ready \<noteq> - 1"
    by (simp add: q)
  have f: "seds_router_result env_enqueue_fails (Suc (length (trace state_ready))) = SEDS_ERR"
    by (simp add: env_enqueue_fails_def)
  note t = timesync_request_advances_seq [OF e m c, of env_enqueue_fails]
  from t f have 1: "fst (telemetry_timesync_request client_node env_enqueue_fails state_ready) = SEDS_ERR"
    by simp
  from t q have 2: "g_timesync_seq (snd (telemetry_timesync_request client_node env_enqueue_fails state_ready)) = 2"
    by simp
  from t n have 3: "g_timesync_seq state_ready
       < g_timesync_seq (snd (telemetry_timesync_request client_node env_enqueue_fails state_ready))"
    by blast
  show ?thesis
    using e m c q n 1 2 3 by blast
qed

section \<open>Logging with bad arguments\<close>

lemma typed_record_call:
  "\<not> is_log_typed_ex e \<Longrightarrow>
     filter is_log_typed_ex (trace (record_call e s)) = filter is_log_typed_ex (trace s)"
  by (simp add: record_call_def)

lemma typed_telemetry_now_ms:
  "filter is_log_typed_ex (trace (snd (telemetry_now_ms C E s))) = filter is_log_typed_ex (trace s)"
  by (simp add: telemetry_now_ms_frame)

lemma typed_init_telemetry_router:
  "filter is_log_typed_ex (trace (snd (init_telemetry_router C E s)))
     = filter is_log_typed_ex (trace s)"
  by (simp add: init_telemetry_router_def Let_def split_def telemetry_now_ms_frame
      record_call_def subscribe_can_rx_frame add_can_side_frame split: option.split)

lemma typed_router_ready:
  "filter is_log_typed_ex (trace (snd (router_ready C E s))) = filter is_log_typed_ex (trace s)"
  by (simp add: router_ready_def split_def Let_def typed_init_telemetry_router)

lemma fst_router_ready:
  "fst (router_ready C E s)
     \<longleftrightarrow> r (g_router s) \<noteq> None \<or> fst (init_telemetry_router C E s) = SEDS_OK"
  by (simp add: router_ready_def split_def Let_def)

text \<open>
  Claim C9, as amended. For a null data pointer, a zero element count or a zero element
  size, \<open>log_telemetry_synchronous\<close> and \<open>log_telemetry_asynchronous\<close> never call
  \<open>seds_router_log_typed_ex\<close>. With telemetry enabled they return \<open>SEDS_BAD_ARG\<close>
  when the router is there or the lazy initialisation before the argument check
  succeeds, and \<open>SEDS_ERR\<close> when that initialisation fails; with telemetry disabled
  they return \<open>SEDS_OK\<close>.
\<close>

theorem logging_bad_argument:
  assumes "data = None \<or> element_count = 0 \<or> element_size = 0"
  shows "fst (log_telemetry_synchronous C E dt data element_count element_size s)
           = (if \<not> TELEMETRY_ENABLED C then SEDS_OK
              else if r (g_router s) \<noteq> None \<or> fst (init_telemetry_router C E s) = SEDS_OK
              then SEDS_BAD_ARG else SEDS_ERR)
    \<and> filter is_log_typed_ex
          (trace (snd (log_telemetry_synchronous C E dt data element_count element_size s)))
        = filter is_log_typed_ex (trace s)
    \<and> fst (log_telemetry_asynchronous C E dt data element_count element_size s)
           = (if \<not> TELEMETRY_ENABLED C then SEDS_OK
              else if r (g_router s) \<noteq> None \<or> fst (init_telemetry_router C E s) = SEDS_OK
              then SEDS_BAD_ARG else SEDS_ERR)
    \<and> filter is_log_typed_ex
          (trace (snd (log_telemetry_asynchronous C E dt data element_count element_size s)))
        = filter is_log_typed_ex (trace s)"
proof -
  have sy: "log_telemetry_synchronous C E dt data element_count element_size s
      = (if \<not> TELEMETRY_ENABLED C then (SEDS_OK, s)
         else (if fst (router_ready C E s) then SEDS_BAD_ARG else SEDS_ERR,
               snd (router_ready C E s)))"
    using assms by (auto simp add: log_telemetry_synchronous_def split_def)
  have asy: "log_telemetry_asynchronous C E dt data element_count element_size s
      = (if \<not> TELEMETRY_ENABLED C then (SEDS_OK, s)
         else (if fst (router_ready C E s) then SEDS_BAD_ARG else SEDS_ERR,
               snd (router_ready C E s)))"
    using assms by (auto simp add: log_telemetry_asynchronous_def split_def)
  show ?thesis
    unfolding sy asy by (simp add: typed_router_ready fst_router_ready)
qed

text \<open>A null data pointer on a node whose router is up.\<close>

theorem logging_bad_argument_witness:
  "((None :: uint8_t list option) = None \<or> (3 :: nat) = 0 \<or> (4 :: nat) = 0)
   \<and> r (g_router state_ready) \<noteq> None
   \<and> fst (log_telemetry_synchronous client_node env_ok SEDS_DT_MESSAGE_DATA None 3 4 state_ready)
       = SEDS_BAD_ARG
   \<and> fst (log_telemetry_asynchronous client_node env_ok SEDS_DT_MESSAGE_DATA None 3 4 state_ready)
       = SEDS_BAD_ARG
   \<and> filter is_log_typed_ex
        (trace (snd (log_telemetry_synchronous client_node env_ok SEDS_DT_MESSAGE_DATA None 3 4
                       state_ready)))
       = filter is_log_typed_ex (trace state_ready)"
proof -
  have a: "(None :: uint8_t list option) = None \<or> (3 :: nat) = 0 \<or> (4 :: nat) = 0"
    by simp
  have e: "TELEMETRY_ENABLED client_node"
    by (simp add: client_node_def)
  have c: "r (g_router state_ready) \<noteq> None"
    by (simp add: state_ready_def)
  note t = logging_bad_argument [OF a, of client_node env_ok SEDS_DT_MESSAGE_DATA state_ready]
  from t e c have 1: "fst (log_telemetry_synchronous client_node env_ok SEDS_DT_MESSAGE_DATA None 3 4
      state_ready) = SEDS_BAD_ARG"
    by simp
  from t e c have 2: "fst (log_telemetry_asynchronous client_node env_ok SEDS_DT_MESSAGE_DATA None 3 4
      state_ready) = SEDS_BAD_ARG"
    by simp
  from t have 3: "filter is_log_typed_ex
        (trace (snd (log_telemetry_synchronous client_node env_ok SEDS_DT_MESSAGE_DATA None 3 4
                       state_ready)))
       = filter is_log_typed_ex (trace state_ready)"
    by blast
  show ?thesis
    using a c 1 2 3 by blast
qed

text \<open>
  Claim C9, as stated, fails on a node whose router cannot be created: the lazy
  initialisation comes before the argument check, and the call with a null data
  pointer returns \<open>SEDS_ERR\<close>.
\<close>

theorem lazy_init_failure_precedes_argument_check:
  "fst (log_telemetry_synchronous client_node env_no_router SEDS_DT_MESSAGE_DATA None 3 4 state_init)
     = SEDS_ERR
   \<and> fst (log_telemetry_asynchronous client_node env_no_router SEDS_DT_MESSAGE_DATA None 3 4 state_init)
     = SEDS_ERR
   \<and> SEDS_ERR \<noteq> SEDS_BAD_ARG"
proof -
  have i: "fst (init_telemetry_router client_node env_no_router state_init) = SEDS_ERR"
    by (simp add: init_telemetry_router_def subscribe_can_rx_def client_node_def
        env_no_router_def env_ok_def state_init_def record_call_def Let_def)
  have n: "r (g_router state_init) = None"
    by (simp add: state_init_def)
  have rr: "fst (router_ready client_node env_no_router state_init) = False"
    using i n by (simp add: fst_router_ready)
  have e: "TELEMETRY_ENABLED client_node"
    by (simp add: client_node_def)
  show ?thesis
    using rr e
    by (simp add: log_telemetry_synchronous_def log_telemetry_asynchronous_def split_def)
qed

section \<open>Validity of the unix base is never reset\<close>

lemma valid_record_call: "g_unix_valid (record_call e s) = g_unix_valid s"
  by (simp add: record_call_def)

lemma valid_tx_raw_now_ms: "g_unix_valid (snd (tx_raw_now_ms C E s)) = g_unix_valid s"
  by (simp add: tx_raw_now_ms_state)

lemma valid_telemetry_now_ms: "g_unix_valid (snd (telemetry_now_ms C E s)) = g_unix_valid s"
  by (simp add: telemetry_now_ms_state tx_raw_now_ms_state)

lemma valid_telemetry_unix_ms: "g_unix_valid (snd (telemetry_unix_ms C E s)) = g_unix_valid s"
  by (simp add: telemetry_unix_ms_def split_def Let_def valid_telemetry_now_ms)

lemma valid_telemetry_unix_s: "g_unix_valid (snd (telemetry_unix_s C E s)) = g_unix_valid s"
  by (simp add: telemetry_unix_s_def split_def Let_def valid_telemetry_unix_ms)

lemma valid_node_now_since_ms: "g_unix_valid (snd (node_now_since_ms C E s)) = g_unix_valid s"
  by (simp add: node_now_since_ms_def split_def Let_def valid_telemetry_now_ms)

lemma valid_telemetry_set_unix_time_ms:
  "g_unix_valid s = 1 \<Longrightarrow> g_unix_valid (telemetry_set_unix_time_ms C E u s) = 1"
  by (simp add: telemetry_set_unix_time_ms_def split_def Let_def)

lemma valid_tx_send: "g_unix_valid (snd (tx_send E b n s)) = g_unix_valid s"
  by (simp add: tx_send_def valid_record_call split: option.splits)

lemma valid_seds_router_log_ts:
  "g_unix_valid (snd (seds_router_log_ts E rp dt ts d s)) = g_unix_valid s"
  by (simp add: seds_router_log_ts_def valid_record_call)

lemma valid_router_enqueue: "g_unix_valid (snd (router_enqueue E e s)) = g_unix_valid s"
  by (simp add: router_enqueue_def valid_record_call)

lemma valid_on_timesync:
  "g_unix_valid s = 1 \<Longrightarrow> g_unix_valid (snd (on_timesync C E p s)) = 1"
  by (simp add: on_timesync_def split_def Let_def valid_tx_raw_now_ms valid_seds_router_log_ts
      split: option.splits)

lemma valid_deliver:
  "g_unix_valid s = 1 \<Longrightarrow> g_unix_valid (deliver C E ps s) = 1"
  by (induction ps arbitrary: s) (simp_all add: valid_on_timesync)

lemma valid_router_processing:
  "g_unix_valid s = 1 \<Longrightarrow> g_unix_valid (snd (router_processing C E e s)) = 1"
  by (simp add: router_processing_def Let_def valid_deliver valid_record_call)

lemma valid_init_telemetry_router:
  "g_unix_valid (snd (init_telemetry_router C E s)) = g_unix_valid s"
  by (simp add: init_telemetry_router_def Let_def split_def telemetry_now_ms_frame
      record_call_def subscribe_can_rx_frame add_can_side_frame split: option.split)

lemma valid_router_ready: "g_unix_valid (snd (router_ready C E s)) = g_unix_valid s"
  by (simp add: router_ready_def split_def Let_def valid_init_telemetry_router)

lemma valid_rx_asynchronous:
  "g_unix_valid (rx_asynchronous C E b n s) = g_unix_valid s"
  by (simp add: rx_asynchronous_def split_def Let_def valid_router_ready valid_router_enqueue
      split: option.splits)

lemma valid_rx_synchronous:
  "g_unix_valid s = 1 \<Longrightarrow> g_unix_valid (rx_synchronous C E b n s) = 1"
  by (simp add: rx_synchronous_def split_def Let_def valid_router_ready valid_router_processing
      split: option.splits)

lemma valid_telemetry_timesync_request:
  "g_unix_valid (snd (telemetry_timesync_request C E s)) = g_unix_valid s"
  by (simp add: telemetry_timesync_request_def split_def Let_def valid_router_ready
      valid_seds_router_log_ts valid_tx_raw_now_ms)

lemma valid_telemetry_timesync_announce:
  "g_unix_valid (snd (telemetry_timesync_announce C E p u s)) = g_unix_valid s"
  by (simp add: telemetry_timesync_announce_def split_def Let_def valid_router_ready
      valid_seds_router_log_ts valid_tx_raw_now_ms)

lemma valid_log_telemetry_synchronous:
  "g_unix_valid s = 1 \<Longrightarrow> g_unix_valid (snd (log_telemetry_synchronous C E t d n m s)) = 1"
  by (simp add: log_telemetry_synchronous_def split_def Let_def valid_router_ready
      valid_router_processing)

lemma valid_log_telemetry_asynchronous:
  "g_unix_valid (snd (log_telemetry_asynchronous C E t d n m s)) = g_unix_valid s"
  by (simp add: log_telemetry_asynchronous_def split_def Let_def valid_router_ready
      valid_router_enqueue)

lemma valid_queues:
  assumes "g_unix_valid s = 1"
  shows "g_unix_valid (snd (dispatch_tx_queue C E s)) = 1"
    and "g_unix_valid (snd (process_rx_queue C E s)) = 1"
    and "g_unix_valid (snd (dispatch_tx_queue_timeout C E t s)) = 1"
    and "g_unix_valid (snd (process_rx_queue_timeout C E t s)) = 1"
    and "g_unix_valid (snd (process_all_queues_timeout C E t s)) = 1"
  using assms
  by (simp_all add: dispatch_tx_queue_def process_rx_queue_def dispatch_tx_queue_timeout_def
      process_rx_queue_timeout_def process_all_queues_timeout_def split_def Let_def
      valid_router_ready valid_router_processing)

lemma valid_log_error_asyncronous:
  "g_unix_valid (snd (log_error_asyncronous C E l w t s)) = g_unix_valid s"
  by (simp add: log_error_asyncronous_def split_def Let_def valid_router_ready
      valid_router_enqueue)

lemma valid_log_error_syncronous:
  "g_unix_valid s = 1 \<Longrightarrow> g_unix_valid (snd (log_error_syncronous C E l w t s)) = 1"
  by (simp add: log_error_syncronous_def split_def Let_def valid_router_ready
      valid_router_processing)

lemma valid_perform:
  assumes "g_unix_valid s = 1"
  shows "g_unix_valid (perform C E x s) = 1"
proof (cases x)
  case (On_timesync p)
  then show ?thesis using assms by (simp add: valid_on_timesync)
next
  case (Telemetry_set_unix_time_ms u)
  then show ?thesis using assms by (simp add: valid_telemetry_set_unix_time_ms)
next
  case (Rx_synchronous b n)
  then show ?thesis using assms by (simp add: valid_rx_synchronous)
next
  case (Log_telemetry_synchronous t d n m)
  then show ?thesis using assms by (simp add: valid_log_telemetry_synchronous)
next
  case (Log_error_syncronous l w t)
  then show ?thesis using assms by (simp add: valid_log_error_syncronous)
qed (use assms in \<open>simp_all add: valid_telemetry_now_ms valid_telemetry_unix_ms
      valid_telemetry_unix_s valid_node_now_since_ms valid_tx_send on_sd_packet_def
      telemetry_can_rx_def valid_rx_asynchronous valid_telemetry_timesync_request valid_telemetry_timesync_announce
      valid_init_telemetry_router valid_log_telemetry_asynchronous valid_queues
      valid_log_error_asyncronous\<close>)

lemma valid_perform_all:
  "g_unix_valid s = 1 \<Longrightarrow> g_unix_valid (perform_all C xs s) = 1"
proof (induction xs arbitrary: s)
  case Nil
  then show ?case by simp
next
  case (Cons a xs)
  obtain E x where a: "a = (E, x)" by (cases a)
  show ?case
    unfolding a using Cons.IH [OF valid_perform [OF Cons.prems]] by simp
qed

lemma announce_sets_valid:
  assumes "\<not> TELEMETRY_TIME_MASTER C" and "ty p = SEDS_DT_TIME_SYNC_ANNOUNCE"
    and "payload p = Some bs" and "16 \<le> payload_len p"
  shows "g_unix_valid (snd (on_timesync C E (Some p) s)) = 1"
  using assms by (simp add: on_timesync_def split_def Let_def)

lemma master_write_sets_valid:
  "TELEMETRY_TIME_MASTER C \<Longrightarrow> g_unix_valid (telemetry_set_unix_time_ms C E u s) = 1"
  by (simp add: telemetry_set_unix_time_ms_def split_def Let_def)

text \<open>
  Claim C6. A master's \<open>telemetry_set_unix_time_ms\<close> and a client's handling of a
  well-formed \<open>TIME_SYNC_ANNOUNCE\<close> set \<open>g_unix_valid\<close> to 1, and once it is 1 every
  operation of the core, and every sequence of them, leaves it 1, whatever the
  collaborators answer.
\<close>

theorem unix_valid_monotone:
  "(TELEMETRY_TIME_MASTER C \<longrightarrow> g_unix_valid (telemetry_set_unix_time_ms C E u s) = 1)
   \<and> (\<not> TELEMETRY_TIME_MASTER C \<and> ty p = SEDS_DT_TIME_SYNC_ANNOUNCE
        \<and> payload p = Some bs \<and> 16 \<le> payload_len p \<longrightarrow>
          g_unix_valid (snd (on_timesync C E (Some p) s)) = 1)
   \<and> (g_unix_valid s = 1 \<longrightarrow>
          g_unix_valid (perform C E x s) = 1 \<and> g_unix_valid (perform_all C xs s) = 1)"
  using master_write_sets_valid [of C E u s] announce_sets_valid [of C p bs E s]
    valid_perform [of s C E x] valid_perform_all [of s C xs]
  by blast

text \<open>
  A master after an absolute-time write, through a response, a failing initialisation,
  a queue drain and a clock read; a client after an announce, through a malformed
  response.
\<close>

theorem unix_valid_monotone_witness:
  "TELEMETRY_TIME_MASTER master_node
   \<and> g_unix_valid (telemetry_set_unix_time_ms master_node env_ok 1000 state_init) = 1
   \<and> g_unix_valid (perform_all master_node
        [(env_ok, On_timesync (Some full_response)), (env_no_router, Init_telemetry_router),
         (env_ok, Process_all_queues_timeout 5), (env_ok, Telemetry_unix_ms)]
        (telemetry_set_unix_time_ms master_node env_ok 1000 state_init)) = 1
   \<and> \<not> TELEMETRY_TIME_MASTER client_node \<and> ty an_announce = SEDS_DT_TIME_SYNC_ANNOUNCE
   \<and> payload an_announce = Some [0, 0, 0, 0, 0, 0, 0, 0,  232, 3, 0, 0, 0, 0, 0, 0]
   \<and> 16 \<le> payload_len an_announce
   \<and> g_unix_valid (snd (on_timesync client_node env_ok (Some an_announce) state_init)) = 1
   \<and> g_unix_valid (perform client_node env_ok (On_timesync (Some short_response))
        (snd (on_timesync client_node env_ok (Some an_announce) state_init))) = 1"
proof -
  have m: "TELEMETRY_TIME_MASTER master_node"
    by (simp add: master_node_def)
  have c: "\<not> TELEMETRY_TIME_MASTER client_node"
    by (simp add: client_node_def)
  have a: "ty an_announce = SEDS_DT_TIME_SYNC_ANNOUNCE"
    "payload an_announce = Some [0, 0, 0, 0, 0, 0, 0, 0,  232, 3, 0, 0, 0, 0, 0, 0]"
    "16 \<le> payload_len an_announce"
    by (simp_all add: an_announce_def)
  note t1 = unix_valid_monotone [of master_node env_ok 1000 state_init]
  from t1 m have v1: "g_unix_valid (telemetry_set_unix_time_ms master_node env_ok 1000 state_init) = 1"
    by blast
  note t2 = unix_valid_monotone [of master_node _ _ 
      "telemetry_set_unix_time_ms master_node env_ok 1000 state_init" _ _ _
      "[(env_ok, On_timesync (Some full_response)), (env_no_router, Init_telemetry_router),
        (env_ok, Process_all_queues_timeout 5), (env_ok, Telemetry_unix_ms)]"]
  from t2 v1 have v2: "g_unix_valid (perform_all master_node
        [(env_ok, On_timesync (Some full_response)), (env_no_router, Init_telemetry_router),
         (env_ok, Process_all_queues_timeout 5), (env_ok, Telemetry_unix_ms)]
        (telemetry_set_unix_time_ms master_node env_ok 1000 state_init)) = 1"
    by blast
  note t3 = unix_valid_monotone [of client_node env_ok _ state_init an_announce
      "[0, 0, 0, 0, 0, 0, 0, 0,  232, 3, 0, 0, 0, 0, 0, 0]"]
  from t3 c a have v3: "g_unix_valid (snd (on_timesync client_node env_ok (Some an_announce) state_init)) = 1"
    by blast
  note t4 = unix_valid_monotone [of client_node env_ok _
      "snd (on_timesync client_node env_ok (Some an_announce) state_init)" _ _
      "On_timesync (Some short_response)"]
  from t4 v3 have v4: "g_unix_valid (perform client_node env_ok (On_timesync (Some short_response))
        (snd (on_timesync client_node env_ok (Some an_announce) state_init))) = 1"
    by blast
  show ?thesis
    using m c a v1 v2 v3 v4 by blast
qed


section \<open>A constant measured offset is applied without end\<close>

lemma behind_response_step:
  assumes "high (clk s) = 0" and "last_ticks32 (clk s) \<le> 1025"
  shows "g_master_offset_ms (snd (on_timesync client_node env_ok (Some behind_response) s))
           = g_master_offset_ms s + 250"
    and "high (clk (snd (on_timesync client_node env_ok (Some behind_response) s))) = 0"
    and "last_ticks32 (clk (snd (on_timesync client_node env_ok (Some behind_response) s))) \<le> 1025"
proof -
  have nw: "\<not> (1025 < last_ticks32 (clk s))"
    using assms(2) by (simp add: not_less)
  have at: "tx_raw_now_ms_at 1000 1025 (clk s) = (1025, \<lparr>last_ticks32 = 1025, high = 0\<rparr>)"
    using nw assms(1) by (simp add: tx_raw_now_ms_at_def)
  have t4: "fst (tx_raw_now_ms client_node env_ok s) = 1025"
    by (simp add: tx_raw_now_ms_value client_node_def env_ok_def at)
  have st: "snd (tx_raw_now_ms client_node env_ok s)
      = s\<lparr>trace := trace s @ [TX_TIME_GET], clk := \<lparr>last_ticks32 = 1025, high = 0\<rparr>\<rparr>"
    by (simp add: tx_raw_now_ms_state client_node_def env_ok_def at)
  have ld: "load_u64 [2, 0, 0, 0, 0, 0, 0, 0,  1, 4, 0, 0, 0, 0, 0, 0,
                      233, 7, 0, 0, 0, 0, 0, 0,  233, 7, 0, 0, 0, 0, 0, 0] 8 = 1025"
    "load_u64 [2, 0, 0, 0, 0, 0, 0, 0,  1, 4, 0, 0, 0, 0, 0, 0,
               233, 7, 0, 0, 0, 0, 0, 0,  233, 7, 0, 0, 0, 0, 0, 0] 16 = 2025"
    "load_u64 [2, 0, 0, 0, 0, 0, 0, 0,  1, 4, 0, 0, 0, 0, 0, 0,
               233, 7, 0, 0, 0, 0, 0, 0,  233, 7, 0, 0, 0, 0, 0, 0] 24 = 2025"
    by (simp_all add: load_u64_def)
  have est: "compute_offset_delay 1025 2025 2025 1025 = (1000, 0)"
    by (simp add: compute_offset_delay_def sdiv64_def signed_divide_int_def word_sless_alt)
  have cl: "\<not> TELEMETRY_TIME_MASTER client_node"
    by (simp add: client_node_def)
  have "on_timesync client_node env_ok (Some behind_response) s
      = (SEDS_OK, (snd (tx_raw_now_ms client_node env_ok s))
           \<lparr>g_master_offset_ms :=
              client_apply_offset_ms 1000 (g_master_offset_ms (snd (tx_raw_now_ms client_node env_ok s))),
            g_last_delay_ms := 0\<rparr>)"
    using cl by (simp add: on_timesync_def behind_response_def ld Let_def split_def t4 est)
  then have res: "snd (on_timesync client_node env_ok (Some behind_response) s)
      = s\<lparr>trace := trace s @ [TX_TIME_GET], clk := \<lparr>last_ticks32 = 1025, high = 0\<rparr>,
          g_master_offset_ms := g_master_offset_ms s + 250, g_last_delay_ms := 0\<rparr>"
    by (simp add: st apply_1000_once)
  show "g_master_offset_ms (snd (on_timesync client_node env_ok (Some behind_response) s))
           = g_master_offset_ms s + 250"
    by (simp add: res)
  show "high (clk (snd (on_timesync client_node env_ok (Some behind_response) s))) = 0"
    by (simp add: res)
  show "last_ticks32 (clk (snd (on_timesync client_node env_ok (Some behind_response) s))) \<le> 1025"
    by (simp add: res)
qed

lemma behind_response_repeated:
  assumes "high (clk s) = 0" and "last_ticks32 (clk s) \<le> 1025"
  shows "g_master_offset_ms (deliver client_node env_ok (replicate n (Some behind_response)) s)
           = g_master_offset_ms s + of_nat n * 250"
  using assms
proof (induction n arbitrary: s)
  case 0
  then show ?case by simp
next
  case (Suc n)
  note st = behind_response_step [OF Suc.prems]
  show ?case
    using Suc.IH [OF st(2) st(3)] st(1) by (simp add: algebra_simps)
qed

text \<open>
  Claim C4 fails on the code. A client whose router is up and whose offset is 0
  receives the same measurement again and again: sent at raw time 1025, stamped 2025
  by the master, received at raw time 1025, a candidate of 1000 ms. All four
  timestamps are raw clock readings, so applying the offset does not change the next
  candidate. Four calls of \<open>client_apply_offset_ms\<close> bring \<open>g_master_offset_ms\<close> to 1000;
  the fifth takes it to 1250 and the sixth to 1500, past the candidate.
\<close>

theorem constant_candidate_runs_past:
  "\<bar>sint (1000 :: 64 word)\<bar> \<le> sint NET_TIMESYNC_MAX_STEP_MS
   \<and> fst (compute_offset_delay 1025 2025 2025 1025) = 1000
   \<and> sint (apply_offset_times 4 1000 0) = 1000
   \<and> sint (apply_offset_times 5 1000 0) = 1250
   \<and> sint (apply_offset_times 6 1000 0) = 1500
   \<and> sint (1000 :: 64 word) < sint (apply_offset_times 5 1000 0)
   \<and> g_master_offset_ms state_ready = 0
   \<and> g_master_offset_ms
        (deliver client_node env_ok (replicate 4 (Some behind_response)) state_ready) = 1000
   \<and> g_master_offset_ms
        (deliver client_node env_ok (replicate 5 (Some behind_response)) state_ready) = 1250
   \<and> g_master_offset_ms
        (deliver client_node env_ok (replicate 6 (Some behind_response)) state_ready) = 1500"
proof -
  have "apply_offset_times 4 1000 0 = apply_offset_times (Suc (Suc (Suc (Suc 0)))) 1000 0"
    by (rule arg_cong [where f = "\<lambda>n. apply_offset_times n 1000 0"]) simp
  then have four: "apply_offset_times 4 1000 0 = 1000"
    by (simp add: apply_1000_once)
  have "apply_offset_times 5 1000 0 = apply_offset_times (Suc (Suc (Suc (Suc (Suc 0))))) 1000 0"
    by (rule arg_cong [where f = "\<lambda>n. apply_offset_times n 1000 0"]) simp
  then have five: "apply_offset_times 5 1000 0 = 1250"
    by (simp add: apply_1000_once)
  have "apply_offset_times 6 1000 0 = apply_offset_times (Suc (Suc (Suc (Suc (Suc (Suc 0)))))) 1000 0"
    by (rule arg_cong [where f = "\<lambda>n. apply_offset_times n 1000 0"]) simp
  then have six: "apply_offset_times 6 1000 0 = 1500"
    by (simp add: apply_1000_once)
  have est: "fst (compute_offset_delay 1025 2025 2025 1025) = 1000"
    by (simp add: compute_offset_delay_def sdiv64_def signed_divide_int_def word_sless_alt)
  have h: "high (clk state_ready) = 0" and l: "last_ticks32 (clk state_ready) \<le> 1025"
    and g: "g_master_offset_ms state_ready = 0"
    by (simp_all add: state_ready_def state_init_def clock_init_def)
  note run = behind_response_repeated [OF h l]
  have r4: "g_master_offset_ms
        (deliver client_node env_ok (replicate 4 (Some behind_response)) state_ready) = 1000"
    using run [of 4] g by simp
  have r5: "g_master_offset_ms
        (deliver client_node env_ok (replicate 5 (Some behind_response)) state_ready) = 1250"
    using run [of 5] g by simp
  have r6: "g_master_offset_ms
        (deliver client_node env_ok (replicate 6 (Some behind_response)) state_ready) = 1500"
    using run [of 6] g by simp
  have m: "\<bar>sint (1000 :: 64 word)\<bar> \<le> sint NET_TIMESYNC_MAX_STEP_MS"
    by (simp add: sint_MAX)
  have lt: "sint (1000 :: 64 word) < sint (apply_offset_times 5 1000 0)"
    unfolding five by simp
  show ?thesis
    using m est g r4 r5 r6 lt unfolding four five six by simp
qed

end
